theory Spec2Isabelle
  imports Complex_Main
begin

section \<open>Constants\<close>

text \<open>
  The constants of \<^verbatim>\<open>RadarLabeler.jsx\<close>. JavaScript numbers are modelled as
  real numbers: arithmetic is exact, and division by zero is outside the model (the
  theorems that evaluate the transform assume a non-zero zoom). The two coordinate
  transforms are given a second time with the rounding of double arithmetic after every
  operation.
\<close>

definition KEY_PAN_STEP :: real where "KEY_PAN_STEP = 40"
definition DEFAULT_BBOX_SIZE :: real where "DEFAULT_BBOX_SIZE = 80"
definition MIN_BBOX_SIDE :: real where "MIN_BBOX_SIDE = 5"
definition CLICK_DRAG_THRESHOLD :: real where "CLICK_DRAG_THRESHOLD = 5"
definition ZOOM_MIN :: real where "ZOOM_MIN = 2 / 10"
definition ZOOM_MAX :: real where "ZOOM_MAX = 32"
definition ROTATION_MIN :: real where "ROTATION_MIN = - 10"
definition ROTATION_MAX :: real where "ROTATION_MAX = 10"
definition SAVE_DEBOUNCE_MS :: nat where "SAVE_DEBOUNCE_MS = 400"

datatype tool =
  TOOL_SELECT | TOOL_PAN | TOOL_BOAT_POINT | TOOL_BOAT_BOX | TOOL_BUOY_POINT | TOOL_BUOY_BOX

datatype label = LABEL_BOAT | LABEL_BUOY

section \<open>Data model\<close>

text \<open>
  An annotation object carries \<^verbatim>\<open>id, type, label, x, y\<close> and, when its type is
  \<^verbatim>\<open>'bbox'\<close>, \<^verbatim>\<open>w, h\<close> (\<^verbatim>\<open>createAnnotation\<close>). The type tag is the
  constructor.
\<close>

datatype annotation =
  ANNOTATION_POINT (ann_id: string) (ann_label: label) (ann_x: real) (ann_y: real)
| ANNOTATION_BBOX (ann_id: string) (ann_label: label) (ann_x: real) (ann_y: real)
    (ann_w: real) (ann_h: real)

record frame =
  name :: string
  url :: string
  width :: real
  height :: real
  rotationDeg :: real
  annotations :: "annotation list"

record viewport =
  zoom :: real
  panX :: real
  panY :: real

record project =
  version :: real
  createdAt :: string
  viewport :: viewport
  currentIndex :: int
  frames :: "frame list"
  globalBuoys :: "annotation list"

text \<open>\<^verbatim>\<open>createDefaultProject\<close>; the creation time is the host's clock.\<close>

definition createDefaultProject :: "string \<Rightarrow> project" where
  "createDefaultProject isoNow =
     \<lparr> version = 1, createdAt = isoNow,
       viewport = \<lparr> zoom = 1, panX = 0, panY = 0 \<rparr>,
       currentIndex = 0, frames = [], globalBuoys = [] \<rparr>"

text \<open>
  \<^verbatim>\<open>createAnnotation(type, label, x, y, w = 0, h = 0)\<close>: the identifier comes from
  \<^verbatim>\<open>generateId()\<close> (a random string), here an argument. The two functions are
  the two values of \<^verbatim>\<open>type\<close>.
\<close>

definition createPoint :: "string \<Rightarrow> label \<Rightarrow> real \<Rightarrow> real \<Rightarrow> annotation" where
  "createPoint newId l x y = ANNOTATION_POINT newId l x y"

definition createBBox :: "string \<Rightarrow> label \<Rightarrow> real \<Rightarrow> real \<Rightarrow> real \<Rightarrow> real \<Rightarrow> annotation" where
  "createBBox newId l x y w h = ANNOTATION_BBOX newId l x y w h"

section \<open>Coordinate transforms\<close>

record CoordinateTransformer =
  imgW :: real
  imgH :: real
  t_zoom :: real
  t_panX :: real
  t_panY :: real
  t_rotationDeg :: real
  rotated :: bool

text \<open>\<^verbatim>\<open>new CoordinateTransformer(imgW, imgH, zoom, panX, panY, rotationDeg, rotated)\<close>\<close>

definition newTransformer ::
  "real \<Rightarrow> real \<Rightarrow> real \<Rightarrow> real \<Rightarrow> real \<Rightarrow> real \<Rightarrow> bool \<Rightarrow> CoordinateTransformer" where
  "newTransformer w h z px py rot r =
     \<lparr> imgW = w, imgH = h, t_zoom = z, t_panX = px, t_panY = py,
       t_rotationDeg = rot, rotated = r \<rparr>"

text \<open>The rotation step shared by both directions: \<^verbatim>\<open>nx = x cos - y sin; ny = x sin + y cos\<close>.\<close>

definition rotateBy :: "real \<Rightarrow> real \<times> real \<Rightarrow> real \<times> real" where
  "rotateBy rad p =
     (let x = fst p; y = snd p; c = cos rad; s = sin rad
      in (x * c - y * s, x * s + y * c))"

definition screenToImage :: "CoordinateTransformer \<Rightarrow> real \<Rightarrow> real \<Rightarrow> real \<times> real" where
  "screenToImage t sx sy =
     (let canvasCenterX = imgW t / 2;
          canvasCenterY = imgH t / 2;
          x0 = sx - t_panX t;
          y0 = sy - t_panY t;
          x1 = x0 / t_zoom t;
          y1 = y0 / t_zoom t;
          x2 = x1 - canvasCenterX;
          y2 = y1 - canvasCenterY;
          p = (if rotated t \<and> t_rotationDeg t \<noteq> 0
               then rotateBy ((- t_rotationDeg t * pi) / 180) (x2, y2)
               else (x2, y2))
      in (fst p + canvasCenterX, snd p + canvasCenterY))"

definition imageToScreen :: "CoordinateTransformer \<Rightarrow> real \<Rightarrow> real \<Rightarrow> real \<times> real" where
  "imageToScreen t ix iy =
     (let canvasCenterX = imgW t / 2;
          canvasCenterY = imgH t / 2;
          x0 = ix - canvasCenterX;
          y0 = iy - canvasCenterY;
          p = (if rotated t \<and> t_rotationDeg t \<noteq> 0
               then rotateBy ((t_rotationDeg t * pi) / 180) (x0, y0)
               else (x0, y0));
          x1 = fst p + canvasCenterX;
          y1 = snd p + canvasCenterY;
          x2 = x1 * t_zoom t;
          y2 = y1 * t_zoom t
      in (x2 + t_panX t, y2 + t_panY t))"

text \<open>\<^verbatim>\<open>Math.hypot(a, b)\<close>\<close>

definition hypot :: "real \<Rightarrow> real \<Rightarrow> real" where
  "hypot a b = sqrt (a\<^sup>2 + b\<^sup>2)"

section \<open>The transforms in double arithmetic\<close>

text \<open>
  A JavaScript number is an IEEE 754 double, and \<^verbatim>\<open>+ - * /\<close> return the exact result
  rounded to the nearest double, a tie going to the even significand. \<open>fl\<close> is this
  rounding to 53 significant bits: \<open>x\<close> is scaled by the power of two that brings it
  between \<open>2 ^ 52\<close> and \<open>2 ^ 53\<close>, rounded to an integer and scaled back. The exponent
  is not bounded, so \<open>fl\<close> is the rounding of doubles for results of a magnitude between
  \<open>2 ^ - 1022\<close> and \<open>2 ^ 1024\<close>: no overflow to \<^verbatim>\<open>Infinity\<close>, no subnormal numbers.
\<close>

definition roundHalfEven :: "real \<Rightarrow> int" where
  "roundHalfEven y =
     (let f = \<lfloor>y\<rfloor>
      in if y - of_int f < 1 / 2 then f
         else if y - of_int f > 1 / 2 then f + 1
         else if even f then f else f + 1)"

definition fl :: "real \<Rightarrow> real" where
  "fl x = (if x = 0 then 0
           else (let e = \<lfloor>log 2 \<bar>x\<bar>\<rfloor> - 52
                 in of_int (roundHalfEven (x / 2 powr of_int e)) * 2 powr of_int e))"

definition dadd :: "real \<Rightarrow> real \<Rightarrow> real" where "dadd a b = fl (a + b)"
definition dsub :: "real \<Rightarrow> real \<Rightarrow> real" where "dsub a b = fl (a - b)"
definition dmul :: "real \<Rightarrow> real \<Rightarrow> real" where "dmul a b = fl (a * b)"
definition ddiv :: "real \<Rightarrow> real \<Rightarrow> real" where "ddiv a b = fl (a / b)"

text \<open>
  \<^verbatim>\<open>Math.PI\<close> is the double nearest to \<open>\<pi>\<close>. \<^verbatim>\<open>Math.cos\<close> and \<^verbatim>\<open>Math.sin\<close> are
  approximations that the language leaves to the implementation; they are taken here as
  correctly rounded. The unary minus of a double is exact.
\<close>

definition Math_PI :: real where "Math_PI = fl pi"
definition Math_cos :: "real \<Rightarrow> real" where "Math_cos x = fl (cos x)"
definition Math_sin :: "real \<Rightarrow> real" where "Math_sin x = fl (sin x)"

definition rotateByD :: "real \<Rightarrow> real \<times> real \<Rightarrow> real \<times> real" where
  "rotateByD rad p =
     (let x = fst p; y = snd p; c = Math_cos rad; s = Math_sin rad
      in (dsub (dmul x c) (dmul y s), dadd (dmul x s) (dmul y c)))"

text \<open>\<^verbatim>\<open>screenToImage\<close> and \<^verbatim>\<open>imageToScreen\<close>, statement by statement, on doubles.\<close>

definition screenToImageD :: "CoordinateTransformer \<Rightarrow> real \<Rightarrow> real \<Rightarrow> real \<times> real" where
  "screenToImageD t sx sy =
     (let canvasCenterX = ddiv (imgW t) 2;
          canvasCenterY = ddiv (imgH t) 2;
          x0 = dsub sx (t_panX t);
          y0 = dsub sy (t_panY t);
          x1 = ddiv x0 (t_zoom t);
          y1 = ddiv y0 (t_zoom t);
          x2 = dsub x1 canvasCenterX;
          y2 = dsub y1 canvasCenterY;
          p = (if rotated t \<and> t_rotationDeg t \<noteq> 0
               then rotateByD (ddiv (dmul (- t_rotationDeg t) Math_PI) 180) (x2, y2)
               else (x2, y2))
      in (dadd (fst p) canvasCenterX, dadd (snd p) canvasCenterY))"

definition imageToScreenD :: "CoordinateTransformer \<Rightarrow> real \<Rightarrow> real \<Rightarrow> real \<times> real" where
  "imageToScreenD t ix iy =
     (let canvasCenterX = ddiv (imgW t) 2;
          canvasCenterY = ddiv (imgH t) 2;
          x0 = dsub ix canvasCenterX;
          y0 = dsub iy canvasCenterY;
          p = (if rotated t \<and> t_rotationDeg t \<noteq> 0
               then rotateByD (ddiv (dmul (t_rotationDeg t) Math_PI) 180) (x0, y0)
               else (x0, y0));
          x1 = dadd (fst p) canvasCenterX;
          y1 = dadd (snd p) canvasCenterY;
          x2 = dmul x1 (t_zoom t);
          y2 = dmul y1 (t_zoom t)
      in (dadd x2 (t_panX t), dadd y2 (t_panY t)))"

section \<open>Hit testing\<close>

datatype space = Frame | Global

text \<open>The object \<^verbatim>\<open>{ type: 'frame' | 'global', id, index }\<close> a hit test returns.\<close>

record hit =
  hit_type :: space
  hit_id :: string
  hit_index :: nat

text \<open>\<^verbatim>\<open>project.frames[project.currentIndex]\<close>: undefined outside the list.\<close>

definition currentFrame :: "project \<Rightarrow> frame option" where
  "currentFrame p =
     (if 0 \<le> currentIndex p \<and> currentIndex p < int (length (frames p))
      then Some (frames p ! nat (currentIndex p)) else None)"

text \<open>
  The test in the body of both loops of \<^verbatim>\<open>getAnnotationAtPoint\<close>: a point by
  \<^verbatim>\<open>Math.hypot(ann.x - imgX, ann.y - imgY) < 10\<close>, a box by
  \<^verbatim>\<open>imgX >= ann.x && imgX < ann.x + ann.w && imgY >= ann.y && imgY < ann.y + ann.h\<close>.
\<close>

fun hitsAnnotation :: "annotation \<Rightarrow> real \<Rightarrow> real \<Rightarrow> bool" where
  "hitsAnnotation (ANNOTATION_POINT i l x y) imgX imgY = (hypot (x - imgX) (y - imgY) < 10)"
| "hitsAnnotation (ANNOTATION_BBOX i l x y w h) imgX imgY =
     (imgX \<ge> x \<and> imgX < x + w \<and> imgY \<ge> y \<and> imgY < y + h)"

text \<open>
  \<^verbatim>\<open>for (let i = anns.length - 1; i >= 0; i--)\<close> with the return at the first hit:
  \<open>hitLoop sp anns n\<close> has \<open>n - 1\<close> as the next index to test.
\<close>

fun hitLoop :: "space \<Rightarrow> annotation list \<Rightarrow> nat \<Rightarrow> real \<Rightarrow> real \<Rightarrow> hit option" where
  "hitLoop sp anns 0 imgX imgY = None"
| "hitLoop sp anns (Suc i) imgX imgY =
     (if hitsAnnotation (anns ! i) imgX imgY
      then Some \<lparr> hit_type = sp, hit_id = ann_id (anns ! i), hit_index = i \<rparr>
      else hitLoop sp anns i imgX imgY)"

definition getAnnotationAtPoint :: "project \<Rightarrow> real \<Rightarrow> real \<Rightarrow> hit option" where
  "getAnnotationAtPoint p screenX screenY =
     (case currentFrame p of
        None \<Rightarrow> None
      | Some cf \<Rightarrow>
          (let vp = viewport p;
               trans = newTransformer (width cf) (height cf) (zoom vp) (panX vp) (panY vp)
                         (rotationDeg cf) True;
               img = screenToImage trans screenX screenY
           in case hitLoop Frame (annotations cf) (length (annotations cf)) (fst img) (snd img) of
                Some h \<Rightarrow> Some h
              | None \<Rightarrow>
                  (let transBuoy = newTransformer (width cf) (height cf) (zoom vp) (panX vp)
                                     (panY vp) 0 False;
                       buoy = screenToImage transBuoy screenX screenY
                   in hitLoop Global (globalBuoys p) (length (globalBuoys p))
                        (fst buoy) (snd buoy))))"


text \<open>
  The eight handle names of \<^verbatim>\<open>getHandleAtPoint\<close>, in the order of its array.
\<close>

datatype handle = H_nw | H_n | H_ne | H_w | H_e | H_sw | H_s | H_se

fun firstHandle :: "(handle \<times> real \<times> real) list \<Rightarrow> real \<Rightarrow> real \<Rightarrow> real \<Rightarrow> handle option" where
  "firstHandle [] screenX screenY thr = None"
| "firstHandle ((nm, hx, hy) # hs) screenX screenY thr =
     (if hypot (hx - screenX) (hy - screenY) < thr then Some nm
      else firstHandle hs screenX screenY thr)"

text \<open>
  \<^verbatim>\<open>getHandleAtPoint(screenX, screenY, ann, isGlobal)\<close>; its callers run with a
  current frame, here the argument \<open>cf\<close>.
\<close>

definition getHandleAtPoint ::
  "project \<Rightarrow> frame \<Rightarrow> real \<Rightarrow> real \<Rightarrow> annotation \<Rightarrow> bool \<Rightarrow> handle option" where
  "getHandleAtPoint p cf screenX screenY ann isGlobal =
     (case ann of
        ANNOTATION_POINT i l x y \<Rightarrow> None
      | ANNOTATION_BBOX i l x y w h \<Rightarrow>
          (let vp = viewport p;
               trans = newTransformer (width cf) (height cf) (zoom vp) (panX vp) (panY vp)
                         (if isGlobal then 0 else rotationDeg cf) (\<not> isGlobal);
               handleSize = 8 / zoom vp;
               s1 = imageToScreen trans x y;
               s2 = imageToScreen trans (x + w) (y + h);
               sx1 = fst s1; sy1 = snd s1; sx2 = fst s2; sy2 = snd s2;
               handles =
                 [(H_nw, sx1, sy1), (H_n, (sx1 + sx2) / 2, sy1), (H_ne, sx2, sy1),
                  (H_w, sx1, (sy1 + sy2) / 2), (H_e, sx2, (sy1 + sy2) / 2),
                  (H_sw, sx1, sy2), (H_s, (sx1 + sx2) / 2, sy2), (H_se, sx2, sy2)]
           in firstHandle handles screenX screenY (handleSize * 1.5)))"

section \<open>Application state\<close>

text \<open>
  \<^verbatim>\<open>dragStart\<close> is \<^verbatim>\<open>{ x, y }\<close> or \<^verbatim>\<open>{ x, y, handle, hit }\<close>; a missing
  or null \<^verbatim>\<open>handle\<close> or \<^verbatim>\<open>hit\<close> is \<open>None\<close>.
\<close>

record dragStart =
  ds_x :: real
  ds_y :: real
  ds_handle :: "handle option"
  ds_hit :: "hit option"

text \<open>
  The component's state: the React state variables (\<open>project\<close> to \<open>dragCurrent\<close>), the
  \<^verbatim>\<open>saveTimeoutRef\<close> reference, whether \<^verbatim>\<open>FileIOManager.fileHandle\<close> is set, and
  the host's side of the save timer: the pending timeouts as (id, due time in ms, project
  snapshot of the callback), the next timer id, and the snapshots that save ticks have
  written to the backup key, oldest first. The status line, the last save time and the
  frame-list toggle are display only and left out.
\<close>

record app =
  project :: project
  tool :: tool
  selection :: "hit option"
  hoveredId :: "string option"
  isDragging :: bool
  dragStart :: "dragStart option"
  dragCurrent :: "(real \<times> real) option"
  saveTimeoutRef :: "nat option"
  hasFileHandle :: bool
  timers :: "(nat \<times> nat \<times> project) list"
  nextTimerId :: nat
  backups :: "project list"

text \<open>The state at mount: timer ids of the host start at 1.\<close>

definition initialApp :: "string \<Rightarrow> app" where
  "initialApp isoNow =
     \<lparr> project = createDefaultProject isoNow, tool = TOOL_SELECT, selection = None,
       hoveredId = None, isDragging = False, dragStart = None, dragCurrent = None,
       saveTimeoutRef = None, hasFileHandle = False, timers = [], nextTimerId = 1,
       backups = [] \<rparr>"

section \<open>Auto-save\<close>

definition clearTimeout :: "nat \<Rightarrow> app \<Rightarrow> app" where
  "clearTimeout i st = st\<lparr> timers := filter (\<lambda>t. fst t \<noteq> i) (timers st) \<rparr>"

text \<open>
  \<^verbatim>\<open>triggerSave(proj)\<close> at time \<open>now\<close>:
  \<^verbatim>\<open>if (saveTimeoutRef.current) clearTimeout(saveTimeoutRef.current)\<close> (an id is truthy
  when it is not 0), then \<^verbatim>\<open>saveTimeoutRef.current = setTimeout(..., SAVE_DEBOUNCE_MS)\<close>.
\<close>

definition triggerSave :: "nat \<Rightarrow> project \<Rightarrow> app \<Rightarrow> app" where
  "triggerSave now proj st =
     (let st1 = (case saveTimeoutRef st of
                   Some i \<Rightarrow> (if i \<noteq> 0 then clearTimeout i st else st)
                 | None \<Rightarrow> st);
          i = nextTimerId st1
      in st1\<lparr> timers := timers st1 @ [(i, now + SAVE_DEBOUNCE_MS, proj)],
               nextTimerId := Suc i,
               saveTimeoutRef := Some i \<rparr>)"

text \<open>
  The host's event loop at time \<open>now\<close>: every pending timeout that is due runs, in the
  order the timeouts were set (all have the same delay). The callback of
  \<^verbatim>\<open>triggerSave\<close> writes its snapshot to the backup key
  (\<^verbatim>\<open>saveToLocalStorage(proj)\<close>); the live write and the status line it reports are
  the host's.
\<close>

definition runTimers :: "nat \<Rightarrow> app \<Rightarrow> app" where
  "runTimers now st =
     st\<lparr> backups := backups st @ map (\<lambda>t. snd (snd t)) (filter (\<lambda>t. fst (snd t) \<le> now) (timers st)),
         timers := filter (\<lambda>t. \<not> fst (snd t) \<le> now) (timers st) \<rparr>"

section \<open>Project updates\<close>

text \<open>
  A handler runs on the state of the render that created it: it reads \<open>st\<close>, and what
  it sets goes to the next state \<open>nxt\<close>. \<^verbatim>\<open>updateProject(updater)\<close> applies the updater
  to the \<^verbatim>\<open>project\<close> of its closure, the one of \<open>st\<close>:
  \<^verbatim>\<open>const newProj = updater(project); setProject(newProj); triggerSave(newProj);\<close>
\<close>

definition updateProject :: "nat \<Rightarrow> app \<Rightarrow> (project \<Rightarrow> project) \<Rightarrow> app \<Rightarrow> app" where
  "updateProject now st updater nxt =
     (let newProj = updater (project st)
      in triggerSave now newProj (nxt\<lparr> project := newProj \<rparr>))"

text \<open>
  \<^verbatim>\<open>newFrames[frameIndex] = { ...newFrames[frameIndex], annotations }\<close>: every caller
  passes \<^verbatim>\<open>project.currentIndex\<close> with a current frame, so the index is in the list.
\<close>

definition updateFrameAnnotations :: "nat \<Rightarrow> app \<Rightarrow> nat \<Rightarrow> annotation list \<Rightarrow> app \<Rightarrow> app" where
  "updateFrameAnnotations now st frameIndex anns nxt =
     updateProject now st
       (\<lambda>proj. proj\<lparr> frames := (frames proj)[frameIndex :=
                  (frames proj ! frameIndex)\<lparr> annotations := anns \<rparr>] \<rparr>) nxt"

definition updateGlobalBuoys :: "nat \<Rightarrow> app \<Rightarrow> annotation list \<Rightarrow> app \<Rightarrow> app" where
  "updateGlobalBuoys now st buoys nxt =
     updateProject now st (\<lambda>proj. proj\<lparr> globalBuoys := buoys \<rparr>) nxt"

definition updateViewport :: "nat \<Rightarrow> app \<Rightarrow> real \<Rightarrow> real \<Rightarrow> real \<Rightarrow> app \<Rightarrow> app" where
  "updateViewport now st z px py nxt =
     updateProject now st
       (\<lambda>proj. proj\<lparr> viewport := \<lparr> zoom = z, panX = px, panY = py \<rparr> \<rparr>) nxt"

definition updateFrameRotation :: "nat \<Rightarrow> app \<Rightarrow> nat \<Rightarrow> real \<Rightarrow> app \<Rightarrow> app" where
  "updateFrameRotation now st frameIndex rot nxt =
     updateProject now st
       (\<lambda>proj. proj\<lparr> frames := (frames proj)[frameIndex :=
                  (frames proj ! frameIndex)\<lparr> rotationDeg := rot \<rparr>] \<rparr>) nxt"

section \<open>Navigation and annotation editing\<close>

definition goToFrame :: "nat \<Rightarrow> app \<Rightarrow> int \<Rightarrow> app" where
  "goToFrame now st index =
     (if index \<ge> 0 \<and> index < int (length (frames (project st)))
      then (updateProject now st (\<lambda>proj. proj\<lparr> currentIndex := index \<rparr>) st)\<lparr> selection := None \<rparr>
      else st)"

text \<open>\<^verbatim>\<open>anns.findIndex(pred)\<close>: \<open>None\<close> for -1.\<close>

fun findIndex :: "('a \<Rightarrow> bool) \<Rightarrow> 'a list \<Rightarrow> nat option" where
  "findIndex P [] = None"
| "findIndex P (x # xs) = (if P x then Some 0 else map_option Suc (findIndex P xs))"

text \<open>\<^verbatim>\<open>isGlobal ? project.globalBuoys : currentFrame?.annotations || []\<close>\<close>

definition annotationsOf :: "project \<Rightarrow> bool \<Rightarrow> annotation list" where
  "annotationsOf p isGlobal =
     (if isGlobal then globalBuoys p
      else (case currentFrame p of Some cf \<Rightarrow> annotations cf | None \<Rightarrow> []))"

definition deleteAnnotation :: "nat \<Rightarrow> app \<Rightarrow> app" where
  "deleteAnnotation now st =
     (case selection st of
        None \<Rightarrow> st
      | Some sel \<Rightarrow>
          (case (hit_type sel, currentFrame (project st)) of
             (Frame, Some cf) \<Rightarrow>
               (updateFrameAnnotations now st (nat (currentIndex (project st)))
                  (filter (\<lambda>a. ann_id a \<noteq> hit_id sel) (annotations cf)) st)\<lparr> selection := None \<rparr>
           | (Frame, None) \<Rightarrow> st
           | (Global, cfo) \<Rightarrow>
               (updateGlobalBuoys now st
                  (filter (\<lambda>b. ann_id b \<noteq> hit_id sel) (globalBuoys (project st))) st)\<lparr> selection := None \<rparr>))"

text \<open>\<^verbatim>\<open>ann.x += dx; ann.y += dy\<close> on a copy of the annotation.\<close>

fun movedBy :: "annotation \<Rightarrow> real \<Rightarrow> real \<Rightarrow> annotation" where
  "movedBy (ANNOTATION_POINT i l x y) dx dy = ANNOTATION_POINT i l (x + dx) (y + dy)"
| "movedBy (ANNOTATION_BBOX i l x y w h) dx dy = ANNOTATION_BBOX i l (x + dx) (y + dy) w h"

definition moveAnnotation :: "nat \<Rightarrow> app \<Rightarrow> string \<Rightarrow> real \<Rightarrow> real \<Rightarrow> bool \<Rightarrow> app \<Rightarrow> app" where
  "moveAnnotation now st i dx dy isGlobal nxt =
     (let anns = annotationsOf (project st) isGlobal
      in case findIndex (\<lambda>a. ann_id a = i) anns of
           None \<Rightarrow> nxt
         | Some idx \<Rightarrow>
             (let newAnns = anns[idx := movedBy (anns ! idx) dx dy]
              in if isGlobal then updateGlobalBuoys now st newAnns nxt
                 else updateFrameAnnotations now st (nat (currentIndex (project st))) newAnns nxt))"

text \<open>
  \<^verbatim>\<open>if (idx === -1 || anns[idx].type !== ANNOTATION_BBOX) return;\<close> then
  \<^verbatim>\<open>ann.w = Math.max(MIN_BBOX_SIDE, ann.w + dw)\<close> and the same for \<^verbatim>\<open>h\<close>.
\<close>

definition resizeAnnotation :: "nat \<Rightarrow> app \<Rightarrow> string \<Rightarrow> real \<Rightarrow> real \<Rightarrow> bool \<Rightarrow> app \<Rightarrow> app" where
  "resizeAnnotation now st i dw dh isGlobal nxt =
     (let anns = annotationsOf (project st) isGlobal
      in case findIndex (\<lambda>a. ann_id a = i) anns of
           None \<Rightarrow> nxt
         | Some idx \<Rightarrow>
             (case anns ! idx of
                ANNOTATION_POINT i0 l0 x0 y0 \<Rightarrow> nxt
              | ANNOTATION_BBOX i0 l0 x0 y0 w0 h0 \<Rightarrow>
                  (let newAnns = anns[idx := ANNOTATION_BBOX i0 l0 x0 y0
                                     (max MIN_BBOX_SIDE (w0 + dw)) (max MIN_BBOX_SIDE (h0 + dh))]
                   in if isGlobal then updateGlobalBuoys now st newAnns nxt
                      else updateFrameAnnotations now st (nat (currentIndex (project st)))
                             newAnns nxt)))"


section \<open>Mouse events\<close>

definition drawingTools :: "tool set" where
  "drawingTools = {TOOL_BOAT_POINT, TOOL_BOAT_BOX, TOOL_BUOY_POINT, TOOL_BUOY_BOX}"

definition plainDrag :: "real \<Rightarrow> real \<Rightarrow> dragStart" where
  "plainDrag x y = \<lparr> ds_x = x, ds_y = y, ds_handle = None, ds_hit = None \<rparr>"

definition handleCanvasMouseDown :: "app \<Rightarrow> real \<Rightarrow> real \<Rightarrow> app" where
  "handleCanvasMouseDown st screenX screenY =
     (case currentFrame (project st) of
        None \<Rightarrow> st
      | Some cf \<Rightarrow>
          if tool st = TOOL_PAN
          then st\<lparr> isDragging := True, dragStart := Some (plainDrag screenX screenY) \<rparr>
          else if tool st = TOOL_SELECT
          then (case getAnnotationAtPoint (project st) screenX screenY of
                  Some h \<Rightarrow>
                    (let ann = (if hit_type h = Global
                                then globalBuoys (project st) ! hit_index h
                                else annotations cf ! hit_index h);
                         hnd = getHandleAtPoint (project st) cf screenX screenY ann
                                (hit_type h = Global)
                     in st\<lparr> selection := Some h, isDragging := True,
                            dragStart := Some \<lparr> ds_x = screenX, ds_y = screenY,
                                                ds_handle = hnd, ds_hit = Some h \<rparr> \<rparr>)
                | None \<Rightarrow> st\<lparr> selection := None \<rparr>)
          else if tool st \<in> drawingTools
          then st\<lparr> isDragging := True, dragStart := Some (plainDrag screenX screenY) \<rparr>
          else st)"

text \<open>
  The resize branch of \<^verbatim>\<open>handleCanvasMouseMove\<close>, entered when the drag started on
  a handle \<open>hnd\<close> of the hit \<open>h\<close>. \<^verbatim>\<open>moveAnnotation\<close> and \<^verbatim>\<open>resizeAnnotation\<close>
  both read the project of this render (\<open>st\<close>); the second \<^verbatim>\<open>setProject\<close> replaces
  the first. When the index of the hit is no longer in the list, \<^verbatim>\<open>ann\<close> is undefined
  and \<^verbatim>\<open>ann.x\<close> throws before anything is set: the state stays. For a point at that
  index \<^verbatim>\<open>ann.w\<close> is undefined in the source and unspecified here.
\<close>

definition resizeDrag :: "nat \<Rightarrow> app \<Rightarrow> frame \<Rightarrow> handle \<Rightarrow> hit \<Rightarrow> real \<Rightarrow> real \<Rightarrow> app" where
  "resizeDrag now st cf hnd h screenX screenY =
     (let vp = viewport (project st);
          isGlobal = (hit_type h = Global);
          trans = newTransformer (width cf) (height cf) (zoom vp) (panX vp) (panY vp)
                    (if isGlobal then 0 else rotationDeg cf) (\<not> isGlobal);
          img = screenToImage trans screenX screenY;
          imgX = fst img;
          imgY = snd img;
          anns = (if isGlobal then globalBuoys (project st) else annotations cf)
      in if hnd = H_se
         then (if hit_index h < length anns
               then (let ann = anns ! hit_index h;
                         dw = imgX - (ann_x ann + ann_w ann);
                         dh = imgY - (ann_y ann + ann_h ann)
                     in resizeAnnotation now st (ann_id ann) dw dh isGlobal st)
               else st)
         else if hnd = H_nw
         then (if hit_index h < length anns
               then (let ann = anns ! hit_index h;
                         dx = imgX - ann_x ann;
                         dy = imgY - ann_y ann
                     in resizeAnnotation now st (ann_id ann) (- dx) (- dy) isGlobal
                          (moveAnnotation now st (ann_id ann) dx dy isGlobal st))
               else st)
         else st)"

definition handleCanvasMouseMove :: "nat \<Rightarrow> app \<Rightarrow> real \<Rightarrow> real \<Rightarrow> app" where
  "handleCanvasMouseMove now st screenX screenY =
     (case currentFrame (project st) of
        None \<Rightarrow> st
      | Some cf \<Rightarrow>
          (let vp = viewport (project st);
               hover = (case getAnnotationAtPoint (project st) screenX screenY of
                          Some h \<Rightarrow> st\<lparr> hoveredId := (if hit_id h = [] then None else Some (hit_id h)) \<rparr>
                        | None \<Rightarrow> st\<lparr> hoveredId := None \<rparr>)
           in case (isDragging st, dragStart st) of
                (True, Some ds) \<Rightarrow>
                  if tool st = TOOL_PAN
                  then (updateViewport now st (zoom vp) (panX vp + (screenX - ds_x ds))
                          (panY vp + (screenY - ds_y ds)) st)
                         \<lparr> dragStart := Some (plainDrag screenX screenY) \<rparr>
                  else if tool st = TOOL_SELECT
                  then (case (ds_handle ds, ds_hit ds) of
                          (Some hnd, Some h) \<Rightarrow> resizeDrag now st cf hnd h screenX screenY
                        | (Some hnd, None) \<Rightarrow> st
                        | (None, ho) \<Rightarrow>
                            (case selection st of
                               Some sel \<Rightarrow>
                                 (moveAnnotation now st (hit_id sel)
                                    ((screenX - ds_x ds) / zoom vp) ((screenY - ds_y ds) / zoom vp)
                                    (hit_type sel = Global) st)
                                   \<lparr> dragStart := Some (plainDrag screenX screenY) \<rparr>
                             | None \<Rightarrow> st))
                  else if tool st \<in> drawingTools
                  then st\<lparr> dragCurrent := Some (screenX, screenY) \<rparr>
                  else hover
              | (True, None) \<Rightarrow>
                  if tool st \<in> drawingTools
                  then st\<lparr> dragCurrent := Some (screenX, screenY) \<rparr>
                  else hover
              | (False, dso) \<Rightarrow> hover))"

definition endDrag :: "app \<Rightarrow> app" where
  "endDrag st = st\<lparr> isDragging := False, dragStart := None, dragCurrent := None \<rparr>"

text \<open>The two targets of a new annotation: the global list for the buoy tools, the current
  frame's list for the boat tools.\<close>

definition addAnnotation :: "nat \<Rightarrow> app \<Rightarrow> frame \<Rightarrow> bool \<Rightarrow> annotation \<Rightarrow> app" where
  "addAnnotation now st cf isGlobal ann =
     (if isGlobal then updateGlobalBuoys now st (globalBuoys (project st) @ [ann]) st
      else updateFrameAnnotations now st (nat (currentIndex (project st)))
             (annotations cf @ [ann]) st)"

text \<open>
  The drawing branch of \<^verbatim>\<open>handleCanvasMouseUp\<close> for the drag start \<open>ds\<close>;
  \<open>newId\<close> is what \<^verbatim>\<open>generateId()\<close> returns.
\<close>

definition finishDrawing :: "nat \<Rightarrow> app \<Rightarrow> frame \<Rightarrow> dragStart \<Rightarrow> real \<Rightarrow> real \<Rightarrow> string \<Rightarrow> app" where
  "finishDrawing now st cf ds screenX screenY newId =
     (let moveDistance = hypot (screenX - ds_x ds) (screenY - ds_y ds);
          vp = viewport (project st);
          isGlobal = (tool st = TOOL_BUOY_POINT \<or> tool st = TOOL_BUOY_BOX);
          rot = \<not> isGlobal;
          trans = newTransformer (width cf) (height cf) (zoom vp) (panX vp) (panY vp)
                    (if rot then rotationDeg cf else 0) rot;
          img = screenToImage trans (ds_x ds) (ds_y ds);
          imgX = fst img;
          imgY = snd img
      in if tool st = TOOL_BOAT_POINT \<or> tool st = TOOL_BUOY_POINT
         then addAnnotation now st cf isGlobal
                (createPoint newId (if tool st = TOOL_BOAT_POINT then LABEL_BOAT else LABEL_BUOY)
                   imgX imgY)
         else if tool st = TOOL_BOAT_BOX \<or> tool st = TOOL_BUOY_BOX
         then (let l = (if tool st = TOOL_BOAT_BOX then LABEL_BOAT else LABEL_BUOY)
               in if moveDistance < CLICK_DRAG_THRESHOLD
                  then addAnnotation now st cf isGlobal
                         (createBBox newId l imgX imgY DEFAULT_BBOX_SIZE DEFAULT_BBOX_SIZE)
                  else (let img2 = screenToImage trans screenX screenY;
                            imgX2 = fst img2;
                            imgY2 = snd img2;
                            bx = min imgX imgX2;
                            by = min imgY imgY2;
                            bw = max MIN_BBOX_SIDE \<bar>imgX2 - imgX\<bar>;
                            bh = max MIN_BBOX_SIDE \<bar>imgY2 - imgY\<bar>
                        in addAnnotation now st cf isGlobal (createBBox newId l bx by bw bh)))
         else st)"

text \<open>
  \<^verbatim>\<open>handleCanvasMouseUp\<close>. With a drawing tool, \<^verbatim>\<open>isDragging\<close> and no
  \<^verbatim>\<open>dragStart\<close>, \<^verbatim>\<open>dragStart.x\<close> throws before anything is set: the state stays.
\<close>

definition handleCanvasMouseUp :: "nat \<Rightarrow> app \<Rightarrow> real \<Rightarrow> real \<Rightarrow> string \<Rightarrow> app" where
  "handleCanvasMouseUp now st screenX screenY newId =
     (case currentFrame (project st) of
        None \<Rightarrow> st
      | Some cf \<Rightarrow>
          if tool st \<in> drawingTools \<and> isDragging st
          then (case dragStart st of
                  None \<Rightarrow> st
                | Some ds \<Rightarrow> endDrag (finishDrawing now st cf ds screenX screenY newId))
          else endDrag st)"

definition handleCanvasMouseLeave :: "app \<Rightarrow> app" where
  "handleCanvasMouseLeave st =
     st\<lparr> hoveredId := None, isDragging := False, dragStart := None, dragCurrent := None \<rparr>"

section \<open>Keyboard, wheel and the sidebar's viewport controls\<close>

definition handleWheel :: "nat \<Rightarrow> app \<Rightarrow> real \<Rightarrow> app" where
  "handleWheel now st deltaY =
     (case currentFrame (project st) of
        None \<Rightarrow> st
      | Some cf \<Rightarrow>
          (let vp = viewport (project st);
               factor = (if deltaY > 0 then 0.9 else 1.1);
               newZoom = max ZOOM_MIN (min ZOOM_MAX (zoom vp * factor));
               imgCenterX = width cf / 2;
               imgCenterY = height cf / 2;
               trans = newTransformer (width cf) (height cf) (zoom vp) (panX vp) (panY vp)
                         (rotationDeg cf) True;
               screenCenter = imageToScreen trans imgCenterX imgCenterY;
               transNew = newTransformer (width cf) (height cf) newZoom 0 0 (rotationDeg cf) True;
               newScreen = imageToScreen transNew imgCenterX imgCenterY;
               newPanX = panX vp + (fst screenCenter - fst newScreen);
               newPanY = panY vp + (snd screenCenter - snd newScreen)
           in updateViewport now st newZoom newPanX newPanY st))"

text \<open>
  The \<^verbatim>\<open>keydown\<close> listener: the \<^verbatim>\<open>switch\<close> on \<^verbatim>\<open>e.key\<close>, then the save
  combination. \<^verbatim>\<open>handleBackupDownload\<close> hands the project to the host and changes
  nothing here.
\<close>

definition handleKeyDown :: "nat \<Rightarrow> app \<Rightarrow> string \<Rightarrow> bool \<Rightarrow> bool \<Rightarrow> bool \<Rightarrow> app" where
  "handleKeyDown now st key shiftKey ctrlKey metaKey =
     (case currentFrame (project st) of
        None \<Rightarrow> st
      | Some cf \<Rightarrow>
          (let vp = viewport (project st);
               z = zoom vp;
               step = KEY_PAN_STEP / z;
               idx = currentIndex (project st);
               st1 =
                 (if key = ''ArrowUp'' then updateViewport now st z (panX vp) (panY vp + step) st
                  else if key = ''ArrowDown'' then updateViewport now st z (panX vp) (panY vp - step) st
                  else if key = ''ArrowLeft'' then updateViewport now st z (panX vp + step) (panY vp) st
                  else if key = ''ArrowRight'' then updateViewport now st z (panX vp - step) (panY vp) st
                  else if key \<in> {''n'', ''N'', ''d'', ''D''}
                  then (if shiftKey then st else goToFrame now st (idx + 1))
                  else if key \<in> {''p'', ''P'', ''a'', ''A''}
                  then (if shiftKey then st else goToFrame now st (idx - 1))
                  else if key \<in> {''+'', ''=''}
                  then updateViewport now st (min ZOOM_MAX (z * 1.2)) (panX vp) (panY vp) st
                  else if key \<in> {''-'', ''_''}
                  then updateViewport now st (max ZOOM_MIN (z / 1.2)) (panX vp) (panY vp) st
                  else if key = ''[''
                  then updateFrameRotation now st (nat idx) (max ROTATION_MIN (rotationDeg cf - 0.1)) st
                  else if key = '']''
                  then updateFrameRotation now st (nat idx) (min ROTATION_MAX (rotationDeg cf + 0.1)) st
                  else if key \<in> {''Delete'', ''Backspace''} then deleteAnnotation now st
                  else if key = ''Escape'' then st\<lparr> tool := TOOL_SELECT \<rparr>
                  else if key = ''1'' then st\<lparr> tool := TOOL_BOAT_POINT \<rparr>
                  else if key = ''2'' then st\<lparr> tool := TOOL_BOAT_BOX \<rparr>
                  else if key = ''3'' then st\<lparr> tool := TOOL_BUOY_POINT \<rparr>
                  else if key = ''4'' then st\<lparr> tool := TOOL_BUOY_BOX \<rparr>
                  else if shiftKey \<and> (key = ''ArrowLeft'' \<or> key = ''ArrowRight'')
                  then goToFrame now st (idx + (if key = ''ArrowLeft'' then - 1 else 1))
                  else st)
           in if (ctrlKey \<or> metaKey) \<and> key = ''s''
              then (if hasFileHandle st then triggerSave now (project st) st1 else st1)
              else st1))"

text \<open>
  The zoom slider's \<^verbatim>\<open>onChange\<close>:
  \<^verbatim>\<open>updateViewport(Math.exp(parseFloat(e.target.value)), panX, panY)\<close>, and the Reset
  button: \<^verbatim>\<open>updateViewport(1, 0, 0)\<close>.
\<close>

definition zoomSliderChange :: "nat \<Rightarrow> app \<Rightarrow> real \<Rightarrow> app" where
  "zoomSliderChange now st v =
     updateViewport now st (exp v) (panX (viewport (project st))) (panY (viewport (project st))) st"

definition resetViewport :: "nat \<Rightarrow> app \<Rightarrow> app" where
  "resetViewport now st = updateViewport now st 1 0 0 st"


section \<open>Importing images\<close>

text \<open>What \<^verbatim>\<open>loadSingleImage\<close> resolves to: \<^verbatim>\<open>{ name, url, width, height }\<close>.\<close>

record frameData =
  fd_name :: string
  fd_url :: string
  fd_width :: real
  fd_height :: real

text \<open>\<^verbatim>\<open>{ ...frameData, rotationDeg: 0, annotations: [] }\<close>\<close>

definition newFrame :: "frameData \<Rightarrow> frame" where
  "newFrame fd =
     \<lparr> name = fd_name fd, url = fd_url fd, width = fd_width fd, height = fd_height fd,
       rotationDeg = 0, annotations = [] \<rparr>"

text \<open>
  A file the host hands over: its name, and what \<^verbatim>\<open>loadSingleImage\<close> does with it
  (\<open>None\<close> when the promise rejects). A picker of the File System Access API is absent,
  throws an error of some name, or yields what was picked.
\<close>

datatype image_file = ImageFile (file_name: string) (decoded: "frameData option")

datatype 'a picked = NoPicker | PickerThrew string | Picked 'a

text \<open>
  The four import handlers are \<^verbatim>\<open>async\<close>: they await the picker and
  \<^verbatim>\<open>loadSingleImage\<close>, and other events are handled in between. Each has two
  arguments for the two projects it meets: \<open>captured\<close> is the \<^verbatim>\<open>project\<close> of its
  closure, the project of the render in which the handler was started, and \<open>st\<close> is the
  state when its awaits are over and it calls \<^verbatim>\<open>setProject\<close>. A handler that ends
  without that call leaves \<open>st\<close> as it is.

  \<^verbatim>\<open>{ ...project, frames: fs, currentIndex: 0 }\<close> handed to \<^verbatim>\<open>setProject\<close>: the
  spread reads the captured project.
\<close>

definition setFrames :: "project \<Rightarrow> app \<Rightarrow> frame list \<Rightarrow> app" where
  "setFrames captured st fs = st\<lparr> project := captured\<lparr> frames := fs, currentIndex := 0 \<rparr> \<rparr>"

definition handleFileInputChange :: "project \<Rightarrow> app \<Rightarrow> image_file option \<Rightarrow> app" where
  "handleFileInputChange captured st file =
     (case file of
        None \<Rightarrow> st
      | Some f \<Rightarrow>
          (case decoded f of Some fd \<Rightarrow> setFrames captured st [newFrame fd] | None \<Rightarrow> st))"

text \<open>
  \<^verbatim>\<open>handleOpenFile\<close>: without the picker, or when it or the load throws, the handler
  only opens the fallback input or reports the cancellation.
\<close>

definition handleOpenFile :: "project \<Rightarrow> app \<Rightarrow> image_file picked \<Rightarrow> app" where
  "handleOpenFile captured st outcome =
     (case outcome of
        NoPicker \<Rightarrow> st
      | PickerThrew nm \<Rightarrow> st
      | Picked f \<Rightarrow>
          (case decoded f of Some fd \<Rightarrow> setFrames captured st [newFrame fd] | None \<Rightarrow> st))"

text \<open>\<^verbatim>\<open>name.toLowerCase().split('.').pop()\<close> on names of ASCII characters.\<close>

definition lowerChar :: "char \<Rightarrow> char" where
  "lowerChar c =
     (case map_of (zip ''ABCDEFGHIJKLMNOPQRSTUVWXYZ'' ''abcdefghijklmnopqrstuvwxyz'') c of
        Some d \<Rightarrow> d
      | None \<Rightarrow> c)"

definition toLowerCase :: "string \<Rightarrow> string" where
  "toLowerCase s = map lowerChar s"

definition extensionOf :: "string \<Rightarrow> string" where
  "extensionOf nm = rev (takeWhile (\<lambda>c. c \<noteq> CHR ''.'') (rev (toLowerCase nm)))"

definition imageExts :: "string set" where
  "imageExts = {''png'', ''jpg'', ''jpeg'', ''webp'', ''bmp''}"

text \<open>The loop over the files: a file of another extension, or one that fails to load, is
  skipped.\<close>

fun loadImages :: "image_file list \<Rightarrow> frameData list" where
  "loadImages [] = []"
| "loadImages (f # fs) =
     (if extensionOf (file_name f) \<in> imageExts
      then (case decoded f of Some img \<Rightarrow> img # loadImages fs | None \<Rightarrow> loadImages fs)
      else loadImages fs)"

definition handleFolderInputChange :: "project \<Rightarrow> app \<Rightarrow> image_file list \<Rightarrow> app" where
  "handleFolderInputChange captured st files =
     (if length files = 0 then st
      else (let images = loadImages files
            in if length images = 0 then st
               else setFrames captured st (map newFrame images)))"

text \<open>
  A directory entry: whether its kind is \<^verbatim>\<open>'file'\<close>, and the file behind it.
  \<^verbatim>\<open>loadFolder\<close> runs the same loop and then \<^verbatim>\<open>naturalSort\<close> on the image
  objects: \<^verbatim>\<open>a.toString()\<close> is the same string for every object, the comparison is 0
  and the (stable) sort keeps the order.
\<close>

datatype dir_entry = DirEntry (is_file: bool) (entry_file: image_file)

definition loadFolder :: "dir_entry list \<Rightarrow> frameData list" where
  "loadFolder entries = loadImages (map entry_file entries)"

definition handleOpenFolder :: "project \<Rightarrow> app \<Rightarrow> dir_entry list picked \<Rightarrow> app" where
  "handleOpenFolder captured st outcome =
     (case outcome of
        NoPicker \<Rightarrow> st
      | PickerThrew nm \<Rightarrow> st
      | Picked listing \<Rightarrow>
          (let entries = filter is_file listing
           in if length entries = 0 then st
              else (let fs = loadFolder entries
                    in if length fs = 0 then st
                       else setFrames captured st (map newFrame fs))))"

section \<open>Loading a project file\<close>

text \<open>What \<^verbatim>\<open>JSON.parse\<close> returns.\<close>

datatype json =
  JNull | JBool bool | JNum real | JStr string | JArr "json list" | JObj "(string \<times> json) list"

datatype jsError = TypeError | SyntaxError

text \<open>
  Reading the property \<open>k\<close> (here \<^verbatim>\<open>version\<close> or \<^verbatim>\<open>frames\<close>) of a parsed value:
  a TypeError on \<^verbatim>\<open>null\<close>, the last entry of that key on an object, undefined
  (\<open>None\<close>) on anything else.
\<close>

fun getProp :: "json \<Rightarrow> string \<Rightarrow> jsError + json option" where
  "getProp JNull k = Inl TypeError"
| "getProp (JObj kvs) k = Inr (map_of (rev kvs) k)"
| "getProp j k = Inr None"

fun truthy :: "json option \<Rightarrow> bool" where
  "truthy None = False"
| "truthy (Some JNull) = False"
| "truthy (Some (JBool b)) = b"
| "truthy (Some (JNum r)) = (r \<noteq> 0)"
| "truthy (Some (JStr s)) = (s \<noteq> [])"
| "truthy (Some (JArr xs)) = True"
| "truthy (Some (JObj kvs)) = True"

fun isArray :: "json option \<Rightarrow> bool" where
  "isArray (Some (JArr xs)) = True"
| "isArray v = False"

text \<open>
  \<^verbatim>\<open>loadedProject.version && loadedProject.frames && Array.isArray(loadedProject.frames)\<close>
\<close>

definition validStructure :: "json \<Rightarrow> jsError + bool" where
  "validStructure loadedProject =
     (case getProp loadedProject ''version'' of
        Inl e \<Rightarrow> Inl e
      | Inr v \<Rightarrow>
          if \<not> truthy v then Inr False
          else (case getProp loadedProject ''frames'' of
                  Inl e \<Rightarrow> Inl e
                | Inr f \<Rightarrow> Inr (truthy f \<and> isArray f)))"

text \<open>
  The program keeps the parsed object as its project. The state of this model is typed, so
  the object is read as the program later reads it: the fields of the project file format,
  each of its type. An accepted object of another shape has no counterpart here.
\<close>

definition field :: "json \<Rightarrow> string \<Rightarrow> json option" where
  "field j k = (case j of JObj kvs \<Rightarrow> map_of (rev kvs) k | _ \<Rightarrow> None)"

fun asNumber :: "json option \<Rightarrow> real option" where
  "asNumber (Some (JNum r)) = Some r"
| "asNumber v = None"

fun asString :: "json option \<Rightarrow> string option" where
  "asString (Some (JStr s)) = Some s"
| "asString v = None"

fun asArray :: "json option \<Rightarrow> json list option" where
  "asArray (Some (JArr xs)) = Some xs"
| "asArray v = None"

definition asIndex :: "json option \<Rightarrow> int option" where
  "asIndex v = (case asNumber v of
                  Some r \<Rightarrow> (if r = of_int \<lfloor>r\<rfloor> then Some \<lfloor>r\<rfloor> else None)
                | None \<Rightarrow> None)"

definition asLabel :: "json option \<Rightarrow> label option" where
  "asLabel v = (case asString v of
                  Some s \<Rightarrow> (if s = ''boat'' then Some LABEL_BOAT
                             else if s = ''buoy'' then Some LABEL_BUOY else None)
                | None \<Rightarrow> None)"

fun allSome :: "'a option list \<Rightarrow> 'a list option" where
  "allSome [] = Some []"
| "allSome (x # xs) =
     (case x of None \<Rightarrow> None
      | Some y \<Rightarrow> (case allSome xs of None \<Rightarrow> None | Some ys \<Rightarrow> Some (y # ys)))"

definition annotationOfJson :: "json \<Rightarrow> annotation option" where
  "annotationOfJson j =
     (case (asString (field j ''id''), asString (field j ''type''), asLabel (field j ''label''),
            asNumber (field j ''x''), asNumber (field j ''y'')) of
        (Some i, Some t, Some l, Some x, Some y) \<Rightarrow>
          (if t = ''point'' then Some (ANNOTATION_POINT i l x y)
           else if t = ''bbox''
           then (case (asNumber (field j ''w''), asNumber (field j ''h'')) of
                   (Some w, Some h) \<Rightarrow> Some (ANNOTATION_BBOX i l x y w h)
                 | _ \<Rightarrow> None)
           else None)
      | _ \<Rightarrow> None)"

definition annotationsOfJson :: "json option \<Rightarrow> annotation list option" where
  "annotationsOfJson v =
     (case asArray v of Some xs \<Rightarrow> allSome (map annotationOfJson xs) | None \<Rightarrow> None)"

definition frameOfJson :: "json \<Rightarrow> frame option" where
  "frameOfJson j =
     (case (asString (field j ''name''), asString (field j ''url''), asNumber (field j ''width''),
            asNumber (field j ''height''), asNumber (field j ''rotationDeg''),
            annotationsOfJson (field j ''annotations'')) of
        (Some n, Some u, Some w, Some h, Some r, Some anns) \<Rightarrow>
          Some \<lparr> name = n, url = u, width = w, height = h, rotationDeg = r, annotations = anns \<rparr>
      | _ \<Rightarrow> None)"

definition viewportOfJson :: "json option \<Rightarrow> viewport option" where
  "viewportOfJson v =
     (case v of
        Some j \<Rightarrow>
          (case (asNumber (field j ''zoom''), asNumber (field j ''panX''),
                 asNumber (field j ''panY'')) of
             (Some z, Some px, Some py) \<Rightarrow> Some \<lparr> zoom = z, panX = px, panY = py \<rparr>
           | _ \<Rightarrow> None)
      | None \<Rightarrow> None)"

definition projectOfJson :: "json \<Rightarrow> project option" where
  "projectOfJson j =
     (case (asNumber (field j ''version''), asString (field j ''createdAt''),
            viewportOfJson (field j ''viewport''), asIndex (field j ''currentIndex''),
            asArray (field j ''frames''), annotationsOfJson (field j ''globalBuoys'')) of
        (Some v, Some c, Some vp, Some idx, Some fs, Some buoys) \<Rightarrow>
          (case allSome (map frameOfJson fs) of
             Some frs \<Rightarrow>
               Some \<lparr> version = v, createdAt = c, viewport = vp, currentIndex = idx,
                      frames = frs, globalBuoys = buoys \<rparr>
           | None \<Rightarrow> None)
      | _ \<Rightarrow> None)"

text \<open>
  What the \<^verbatim>\<open>try\<close> block of \<^verbatim>\<open>handleLoadProject\<close> and
  \<^verbatim>\<open>handleProjectFileInput\<close> decides for the text of a file: \<open>parsed\<close> is the result of
  \<^verbatim>\<open>JSON.parse\<close> (\<open>None\<close> when it throws a SyntaxError). The object goes to
  \<^verbatim>\<open>setProject\<close>, or the format is reported invalid, or an error reaches the
  \<^verbatim>\<open>catch\<close>.
\<close>

datatype load_decision = SetProject json | InvalidFormat | Caught jsError

definition decideLoad :: "json option \<Rightarrow> load_decision" where
  "decideLoad parsed =
     (case parsed of
        None \<Rightarrow> Caught SyntaxError
      | Some loadedProject \<Rightarrow>
          (case validStructure loadedProject of
             Inl e \<Rightarrow> Caught e
           | Inr True \<Rightarrow> SetProject loadedProject
           | Inr False \<Rightarrow> InvalidFormat))"

text \<open>
  \<^verbatim>\<open>setProject(loadedProject); setSelection(null)\<close> on acceptance; the other two
  outcomes only set the status line or open the fallback input. The result is \<open>None\<close> when
  the accepted object has no typed reading.
\<close>

definition applyLoad :: "app \<Rightarrow> load_decision \<Rightarrow> app option" where
  "applyLoad st d =
     (case d of
        SetProject loadedProject \<Rightarrow>
          (case projectOfJson loadedProject of
             Some p \<Rightarrow> Some (st\<lparr> project := p, selection := None \<rparr>)
           | None \<Rightarrow> None)
      | InvalidFormat \<Rightarrow> Some st
      | Caught e \<Rightarrow> Some st)"

text \<open>\<^verbatim>\<open>handleProjectFileInput\<close>: \<open>file\<close> is \<^verbatim>\<open>e.target.files?.[0]\<close>, given by
  what its text parses to.\<close>

definition handleProjectFileInput :: "app \<Rightarrow> json option option \<Rightarrow> app option" where
  "handleProjectFileInput st file =
     (case file of
        None \<Rightarrow> Some st
      | Some parsed \<Rightarrow> applyLoad st (decideLoad parsed))"

definition handleLoadProject :: "app \<Rightarrow> json option picked \<Rightarrow> app option" where
  "handleLoadProject st outcome =
     (case outcome of
        NoPicker \<Rightarrow> Some st
      | PickerThrew nm \<Rightarrow> Some st
      | Picked parsed \<Rightarrow> applyLoad st (decideLoad parsed))"


section \<open>Events\<close>

text \<open>
  What the host delivers to the component, each with the arguments the handler reads from
  it. The sidebar with the zoom slider, the Reset button and the project loader is rendered
  only with a current frame. Before an event of time \<open>now\<close> is handled, the timeouts that
  are due have run.

  A synchronous handler runs to its end inside its event. An import is an event at the
  moment its handler has finished awaiting and calls \<^verbatim>\<open>setProject\<close>; its first
  argument \<open>age\<close> is the number of events handled since the handler was started (0 when
  none came in between). The project its closure holds is the project that was current
  then: \<open>closureProject\<close> looks it up in the projects before the earlier events,
  newest first, and a handler older than the whole run holds the project of its start.
  The two project loaders are asynchronous as well: their control was rendered with the
  project of their start, and \<^verbatim>\<open>setProject(loadedProject)\<close> reads nothing of the
  closure.
\<close>

datatype event =
  MouseDown real real
| MouseMove real real
| MouseUp real real string
| MouseLeave
| Wheel real
| KeyDown string bool bool bool
| ZoomSlider real
| ResetButton
| GoToFrame int
| SetTool tool
| FileInput nat "image_file option"
| OpenFile nat "image_file picked"
| FolderInput nat "image_file list"
| OpenFolder nat "dir_entry list picked"
| ProjectFileInput nat "json option option"
| LoadProject nat "json option picked"

definition closureProject :: "project list \<Rightarrow> app \<Rightarrow> nat \<Rightarrow> project" where
  "closureProject earlier st age = (project st # earlier) ! min age (length earlier)"

definition handleEvent :: "project list \<Rightarrow> nat \<Rightarrow> event \<Rightarrow> app \<Rightarrow> app option" where
  "handleEvent earlier now ev st =
     (case ev of
        MouseDown x y \<Rightarrow> Some (handleCanvasMouseDown st x y)
      | MouseMove x y \<Rightarrow> Some (handleCanvasMouseMove now st x y)
      | MouseUp x y newId \<Rightarrow> Some (handleCanvasMouseUp now st x y newId)
      | MouseLeave \<Rightarrow> Some (handleCanvasMouseLeave st)
      | Wheel deltaY \<Rightarrow> Some (handleWheel now st deltaY)
      | KeyDown key shiftKey ctrlKey metaKey \<Rightarrow>
          Some (handleKeyDown now st key shiftKey ctrlKey metaKey)
      | ZoomSlider v \<Rightarrow>
          Some (if currentFrame (project st) = None then st else zoomSliderChange now st v)
      | ResetButton \<Rightarrow>
          Some (if currentFrame (project st) = None then st else resetViewport now st)
      | GoToFrame index \<Rightarrow>
          Some (if currentFrame (project st) = None then st else goToFrame now st index)
      | SetTool t \<Rightarrow>
          Some (if currentFrame (project st) = None then st else st\<lparr> tool := t \<rparr>)
      | FileInput age file \<Rightarrow>
          Some (handleFileInputChange (closureProject earlier st age) st file)
      | OpenFile age outcome \<Rightarrow>
          Some (handleOpenFile (closureProject earlier st age) st outcome)
      | FolderInput age files \<Rightarrow>
          Some (handleFolderInputChange (closureProject earlier st age) st files)
      | OpenFolder age outcome \<Rightarrow>
          Some (handleOpenFolder (closureProject earlier st age) st outcome)
      | ProjectFileInput age file \<Rightarrow>
          (if currentFrame (closureProject earlier st age) = None then Some st
           else handleProjectFileInput st file)
      | LoadProject age outcome \<Rightarrow>
          (if currentFrame (closureProject earlier st age) = None then Some st
           else handleLoadProject st outcome))"

text \<open>The event loop: \<open>earlier\<close> holds the project before each event handled so far.\<close>

fun runFrom :: "project list \<Rightarrow> (nat \<times> event) list \<Rightarrow> app \<Rightarrow> app option" where
  "runFrom earlier [] st = Some st"
| "runFrom earlier ((now, ev) # evs) st =
     (case handleEvent earlier now ev (runTimers now st) of
        None \<Rightarrow> None
      | Some st' \<Rightarrow> runFrom (project (runTimers now st) # earlier) evs st')"

definition run :: "(nat \<times> event) list \<Rightarrow> app \<Rightarrow> app option" where
  "run evs st = runFrom [] evs st"




section \<open>The invariants of the specification\<close>

text \<open>
  The project invariant as the specification words it, and the form that the handlers keep:
  the zoom bound does not depend on the frame list there.
\<close>

definition zoomInRange :: "project \<Rightarrow> bool" where
  "zoomInRange p = (ZOOM_MIN \<le> zoom (viewport p) \<and> zoom (viewport p) \<le> ZOOM_MAX)"

definition indexInRange :: "project \<Rightarrow> bool" where
  "indexInRange p = (0 \<le> currentIndex p \<and> currentIndex p < int (length (frames p)))"

definition projectInvariant :: "project \<Rightarrow> bool" where
  "projectInvariant p = (frames p \<noteq> [] \<longrightarrow> indexInRange p \<and> zoomInRange p)"

definition keptInvariant :: "project \<Rightarrow> bool" where
  "keptInvariant p = (zoomInRange p \<and> (frames p \<noteq> [] \<longrightarrow> indexInRange p))"

text \<open>
  What the host guarantees of an event: the value of the zoom slider lies between its
  \<^verbatim>\<open>min\<close> and \<^verbatim>\<open>max\<close> attributes. A project file is checked where it says so:
  \<open>checkedLoad\<close> holds when the file is rejected, or is accepted and itself has an index
  and a zoom in range.
\<close>

definition checkedLoad :: "json option \<Rightarrow> bool" where
  "checkedLoad parsed =
     (case decideLoad parsed of
        SetProject j \<Rightarrow> (case projectOfJson j of Some p \<Rightarrow> keptInvariant p | None \<Rightarrow> False)
      | InvalidFormat \<Rightarrow> True
      | Caught e \<Rightarrow> True)"

fun admissible :: "event \<Rightarrow> bool" where
  "admissible (ZoomSlider v) = (ln ZOOM_MIN \<le> v \<and> v \<le> ln ZOOM_MAX)"
| "admissible (ProjectFileInput age (Some parsed)) = checkedLoad parsed"
| "admissible (LoadProject age (Picked parsed)) = checkedLoad parsed"
| "admissible ev = True"


section \<open>Example states\<close>

text \<open>
  Concrete inputs on which the theorems below are run: a 200 by 100 frame that is not
  rotated, a project of that one frame, and the component holding it.
\<close>

definition exampleFrame :: "annotation list \<Rightarrow> frame" where
  "exampleFrame anns =
     \<lparr> name = ''f1.png'', url = ''data:1'', width = 200, height = 100, rotationDeg = 0,
       annotations = anns \<rparr>"

definition exampleProject :: "viewport \<Rightarrow> annotation list \<Rightarrow> annotation list \<Rightarrow> project" where
  "exampleProject vp boats buoys =
     \<lparr> version = 1, createdAt = ''2024-10-17T12:00:00Z'', viewport = vp, currentIndex = 0,
       frames = [exampleFrame boats], globalBuoys = buoys \<rparr>"

definition unitViewport :: viewport where
  "unitViewport = \<lparr> zoom = 1, panX = 0, panY = 0 \<rparr>"

definition exampleApp :: "project \<Rightarrow> tool \<Rightarrow> dragStart option \<Rightarrow> app" where
  "exampleApp p t ds =
     \<lparr> project = p, tool = t, selection = None, hoveredId = None,
       isDragging = (ds \<noteq> None), dragStart = ds, dragCurrent = None,
       saveTimeoutRef = None, hasFileHandle = False, timers = [], nextTimerId = 1,
       backups = [] \<rparr>"

text \<open>
  A project file in the format the program writes, holding the same frame, with the given
  version, current index and zoom.
\<close>

definition exampleFile :: "real \<Rightarrow> int \<Rightarrow> real \<Rightarrow> json" where
  "exampleFile v idx z =
     JObj [(''version'', JNum v),
           (''createdAt'', JStr ''2024-10-17T12:00:00Z''),
           (''viewport'', JObj [(''zoom'', JNum z), (''panX'', JNum 0), (''panY'', JNum 0)]),
           (''currentIndex'', JNum (of_int idx)),
           (''frames'', JArr [JObj [(''name'', JStr ''f1.png''), (''url'', JStr ''data:1''),
                                    (''width'', JNum 200), (''height'', JNum 100),
                                    (''rotationDeg'', JNum 0), (''annotations'', JArr [])]]),
           (''globalBuoys'', JArr [])]"

section \<open>Basic facts\<close>

lemma sqrt_less_iff_sq: "0 < r \<Longrightarrow> (sqrt x < r) = (x < r\<^sup>2)"
  by (metis real_sqrt_less_iff real_sqrt_abs abs_of_pos)

lemma triggerSave_fields:
  "project (triggerSave now p st) = project st"
  "tool (triggerSave now p st) = tool st"
  "selection (triggerSave now p st) = selection st"
  "hoveredId (triggerSave now p st) = hoveredId st"
  "isDragging (triggerSave now p st) = isDragging st"
  "dragStart (triggerSave now p st) = dragStart st"
  "dragCurrent (triggerSave now p st) = dragCurrent st"
  "hasFileHandle (triggerSave now p st) = hasFileHandle st"
  "backups (triggerSave now p st) = backups st"
  by (simp_all add: triggerSave_def clearTimeout_def Let_def split: option.split)

lemma updateProject_fields:
  "project (updateProject now st u nxt) = u (project st)"
  "tool (updateProject now st u nxt) = tool nxt"
  "selection (updateProject now st u nxt) = selection nxt"
  "hoveredId (updateProject now st u nxt) = hoveredId nxt"
  "isDragging (updateProject now st u nxt) = isDragging nxt"
  "dragStart (updateProject now st u nxt) = dragStart nxt"
  "dragCurrent (updateProject now st u nxt) = dragCurrent nxt"
  "hasFileHandle (updateProject now st u nxt) = hasFileHandle nxt"
  "backups (updateProject now st u nxt) = backups nxt"
  by (simp_all add: updateProject_def Let_def triggerSave_fields)

lemma currentFrame_SomeD:
  "currentFrame p = Some cf \<Longrightarrow>
     0 \<le> currentIndex p \<and> nat (currentIndex p) < length (frames p)
     \<and> frames p ! nat (currentIndex p) = cf"
  by (auto simp: currentFrame_def split: if_splits)

lemma currentFrame_example [simp]:
  "currentFrame (exampleProject vp boats buoys) = Some (exampleFrame boats)"
  by (simp add: currentFrame_def exampleProject_def)

section \<open>Order of the hit test\<close>

lemma hitLoop_None:
  "(\<forall>j<n. \<not> hitsAnnotation (anns ! j) x y) \<Longrightarrow> hitLoop sp anns n x y = None"
  by (induction n) auto

lemma hitLoop_Some:
  "i < n \<Longrightarrow> hitsAnnotation (anns ! i) x y \<Longrightarrow>
   (\<forall>j. i < j \<and> j < n \<longrightarrow> \<not> hitsAnnotation (anns ! j) x y) \<Longrightarrow>
   hitLoop sp anns n x y = Some \<lparr> hit_type = sp, hit_id = ann_id (anns ! i), hit_index = i \<rparr>"
proof (induction n)
  case 0
  then show ?case by simp
next
  case (Suc n)
  show ?case
  proof (cases "i = n")
    case True
    with Suc.prems show ?thesis by simp
  next
    case False
    with Suc.prems have "i < n" by simp
    moreover from Suc.prems \<open>i < n\<close> have "\<not> hitsAnnotation (anns ! n) x y" by simp
    ultimately show ?thesis using Suc by simp
  qed
qed

text \<open>
  Claim C3. With a current frame, the display point is mapped to image space by the
  transform that applies the frame's rotation, and the frame's annotations are tested from
  the last index down: the result is the hit of the highest index, so of two overlapping
  annotations the one inserted later wins. Only when no frame annotation is hit is the
  point mapped by the transform without rotation and the global list tested in the same
  order; with no hit in either list the result is none. A point annotation is hit when its
  Euclidean distance to the mapped point is below 10, a box when the mapped point lies in
  it, its minimum sides included and its maximum sides excluded.
\<close>

theorem getAnnotationAtPoint_order:
  assumes cf: "currentFrame p = Some cf"
    and z: "zoom (viewport p) \<noteq> 0"
  shows
    "(let vp = viewport p;
          img = screenToImage (newTransformer (width cf) (height cf) (zoom vp) (panX vp) (panY vp)
                  (rotationDeg cf) True) sx sy;
          buoy = screenToImage (newTransformer (width cf) (height cf) (zoom vp) (panX vp) (panY vp)
                  0 False) sx sy;
          boats = annotations cf;
          buoys = globalBuoys p;
          hitF = (\<lambda>i. i < length boats \<and> hitsAnnotation (boats ! i) (fst img) (snd img));
          hitG = (\<lambda>i. i < length buoys \<and> hitsAnnotation (buoys ! i) (fst buoy) (snd buoy))
      in (\<forall>i. hitF i \<and> (\<forall>j. i < j \<longrightarrow> \<not> hitF j) \<longrightarrow>
             getAnnotationAtPoint p sx sy
               = Some \<lparr> hit_type = Frame, hit_id = ann_id (boats ! i), hit_index = i \<rparr>)
       \<and> (\<forall>i. (\<forall>j. \<not> hitF j) \<and> hitG i \<and> (\<forall>j. i < j \<longrightarrow> \<not> hitG j) \<longrightarrow>
             getAnnotationAtPoint p sx sy
               = Some \<lparr> hit_type = Global, hit_id = ann_id (buoys ! i), hit_index = i \<rparr>)
       \<and> ((\<forall>j. \<not> hitF j) \<and> (\<forall>j. \<not> hitG j) \<longrightarrow> getAnnotationAtPoint p sx sy = None))
     \<and> (\<forall>i l x y a b. hitsAnnotation (ANNOTATION_POINT i l x y) a b
            \<longleftrightarrow> sqrt ((x - a)\<^sup>2 + (y - b)\<^sup>2) < 10)
     \<and> (\<forall>i l x y w h a b. hitsAnnotation (ANNOTATION_BBOX i l x y w h) a b
            \<longleftrightarrow> x \<le> a \<and> a < x + w \<and> y \<le> b \<and> b < y + h)"
proof -
  define vp where "vp = viewport p"
  define img where "img = screenToImage (newTransformer (width cf) (height cf) (zoom vp)
      (panX vp) (panY vp) (rotationDeg cf) True) sx sy"
  define buoy where "buoy = screenToImage (newTransformer (width cf) (height cf) (zoom vp)
      (panX vp) (panY vp) 0 False) sx sy"
  define boats where "boats = annotations cf"
  define buoys where "buoys = globalBuoys p"
  have res: "getAnnotationAtPoint p sx sy =
      (case hitLoop Frame boats (length boats) (fst img) (snd img) of
         Some h \<Rightarrow> Some h
       | None \<Rightarrow> hitLoop Global buoys (length buoys) (fst buoy) (snd buoy))"
    by (simp add: getAnnotationAtPoint_def cf Let_def vp_def img_def buoy_def boats_def
        buoys_def split: option.split)
  have A: "getAnnotationAtPoint p sx sy
             = Some \<lparr> hit_type = Frame, hit_id = ann_id (boats ! i), hit_index = i \<rparr>"
    if "i < length boats" "hitsAnnotation (boats ! i) (fst img) (snd img)"
       "\<forall>j. i < j \<longrightarrow> \<not> (j < length boats \<and> hitsAnnotation (boats ! j) (fst img) (snd img))"
    for i
    using that by (simp add: res hitLoop_Some)
  have noF: "hitLoop Frame boats (length boats) (fst img) (snd img) = None"
    if "\<forall>j. \<not> (j < length boats \<and> hitsAnnotation (boats ! j) (fst img) (snd img))"
    using that by (simp add: hitLoop_None)
  have B: "getAnnotationAtPoint p sx sy
             = Some \<lparr> hit_type = Global, hit_id = ann_id (buoys ! i), hit_index = i \<rparr>"
    if "\<forall>j. \<not> (j < length boats \<and> hitsAnnotation (boats ! j) (fst img) (snd img))"
       "i < length buoys" "hitsAnnotation (buoys ! i) (fst buoy) (snd buoy)"
       "\<forall>j. i < j \<longrightarrow> \<not> (j < length buoys \<and> hitsAnnotation (buoys ! j) (fst buoy) (snd buoy))"
    for i
    using that by (simp add: res noF hitLoop_Some)
  have C: "getAnnotationAtPoint p sx sy = None"
    if "\<forall>j. \<not> (j < length boats \<and> hitsAnnotation (boats ! j) (fst img) (snd img))"
       "\<forall>j. \<not> (j < length buoys \<and> hitsAnnotation (buoys ! j) (fst buoy) (snd buoy))"
    using that by (simp add: res noF hitLoop_None)
  show ?thesis
    unfolding Let_def
    using A B C
    by (simp add: vp_def img_def buoy_def boats_def buoys_def hypot_def)
qed

theorem getAnnotationAtPoint_order_witness:
  "currentFrame (exampleProject unitViewport
       [ANNOTATION_BBOX ''a'' LABEL_BOAT 10 10 50 50, ANNOTATION_BBOX ''b'' LABEL_BOAT 20 20 50 50]
       [ANNOTATION_POINT ''g'' LABEL_BUOY 150 80])
     = Some (exampleFrame
       [ANNOTATION_BBOX ''a'' LABEL_BOAT 10 10 50 50, ANNOTATION_BBOX ''b'' LABEL_BOAT 20 20 50 50])
   \<and> zoom (viewport (exampleProject unitViewport
       [ANNOTATION_BBOX ''a'' LABEL_BOAT 10 10 50 50, ANNOTATION_BBOX ''b'' LABEL_BOAT 20 20 50 50]
       [ANNOTATION_POINT ''g'' LABEL_BUOY 150 80])) \<noteq> 0
   \<and> getAnnotationAtPoint (exampleProject unitViewport
       [ANNOTATION_BBOX ''a'' LABEL_BOAT 10 10 50 50, ANNOTATION_BBOX ''b'' LABEL_BOAT 20 20 50 50]
       [ANNOTATION_POINT ''g'' LABEL_BUOY 150 80]) 30 30
     = Some \<lparr> hit_type = Frame, hit_id = ''b'', hit_index = 1 \<rparr>
   \<and> getAnnotationAtPoint (exampleProject unitViewport
       [ANNOTATION_BBOX ''a'' LABEL_BOAT 10 10 50 50, ANNOTATION_BBOX ''b'' LABEL_BOAT 20 20 50 50]
       [ANNOTATION_POINT ''g'' LABEL_BUOY 150 80]) 156 88
     = None
   \<and> getAnnotationAtPoint (exampleProject unitViewport
       [ANNOTATION_BBOX ''a'' LABEL_BOAT 10 10 50 50, ANNOTATION_BBOX ''b'' LABEL_BOAT 20 20 50 50]
       [ANNOTATION_POINT ''g'' LABEL_BUOY 150 80]) 155 88
     = Some \<lparr> hit_type = Global, hit_id = ''g'', hit_index = 0 \<rparr>"
proof -
  let ?boats = "[ANNOTATION_BBOX ''a'' LABEL_BOAT 10 10 50 50,
                 ANNOTATION_BBOX ''b'' LABEL_BOAT 20 20 50 50]"
  let ?P = "exampleProject unitViewport ?boats [ANNOTATION_POINT ''g'' LABEL_BUOY 150 80]"
  have cf: "currentFrame ?P = Some (exampleFrame ?boats)" by simp
  have z: "zoom (viewport ?P) \<noteq> 0" by (simp add: exampleProject_def unitViewport_def)
  note ev = exampleProject_def exampleFrame_def unitViewport_def newTransformer_def
    screenToImage_def sqrt_less_iff_sq power2_eq_square hypot_def
  note T = getAnnotationAtPoint_order [OF cf z, unfolded Let_def, THEN conjunct1]
  have a: "getAnnotationAtPoint ?P 30 30 = Some \<lparr> hit_type = Frame, hit_id = ''b'', hit_index = 1 \<rparr>"
    using T [of 30 30, THEN conjunct1, THEN spec [where x = "Suc 0"]] by (simp add: ev)
  have b: "getAnnotationAtPoint ?P 156 88 = None"
    by (rule T [of 156 88, THEN conjunct2, THEN conjunct2, THEN mp]) (auto simp: ev nth_Cons split: nat.splits)
  have "getAnnotationAtPoint ?P 155 88
          = Some \<lparr> hit_type = Global,
                   hit_id = ann_id (globalBuoys ?P ! 0), hit_index = 0 \<rparr>"
    by (rule T [of 155 88, THEN conjunct2, THEN conjunct1, THEN spec [where x = 0], THEN mp])
      (auto simp: ev nth_Cons split: nat.splits)
  then have c: "getAnnotationAtPoint ?P 155 88
                  = Some \<lparr> hit_type = Global, hit_id = ''g'', hit_index = 0 \<rparr>"
    by (simp add: exampleProject_def)
  from cf z a b c show ?thesis by simp
qed

section \<open>Creating a box\<close>

lemma addAnnotation_project:
  "project (addAnnotation now st cf isGlobal ann) =
     (if isGlobal then (project st)\<lparr> globalBuoys := globalBuoys (project st) @ [ann] \<rparr>
      else (project st)\<lparr> frames := (frames (project st))[nat (currentIndex (project st)) :=
              (frames (project st) ! nat (currentIndex (project st)))
                \<lparr> annotations := annotations cf @ [ann] \<rparr>] \<rparr>)"
  by (simp add: addAnnotation_def updateGlobalBuoys_def updateFrameAnnotations_def
      updateProject_fields)

text \<open>The end of a drawing gesture: the project is the one the drawing branch sets.\<close>

lemma mouseUp_project:
  assumes "tool st \<in> drawingTools"
    and "currentFrame (project st) = Some cf"
    and "isDragging st"
    and "dragStart st = Some ds"
  shows "project (handleCanvasMouseUp now st screenX screenY newId)
           = project (finishDrawing now st cf ds screenX screenY newId)"
  using assms by (simp add: handleCanvasMouseUp_def endDrag_def)

text \<open>The box that the drawing branch hands to the annotation list, for the two box tools.\<close>

lemma finishDrawing_box:
  assumes tl: "tool st = TOOL_BOAT_BOX \<or> tool st = TOOL_BUOY_BOX"
  shows "finishDrawing now st cf ds screenX screenY newId =
     (let vp = viewport (project st);
          isGlobal = (tool st = TOOL_BUOY_BOX);
          trans = newTransformer (width cf) (height cf) (zoom vp) (panX vp) (panY vp)
                    (if isGlobal then 0 else rotationDeg cf) (\<not> isGlobal);
          a = screenToImage trans (ds_x ds) (ds_y ds);
          b = screenToImage trans screenX screenY;
          l = (if isGlobal then LABEL_BUOY else LABEL_BOAT);
          box = (if sqrt ((screenX - ds_x ds)\<^sup>2 + (screenY - ds_y ds)\<^sup>2) < 5
                 then ANNOTATION_BBOX newId l (fst a) (snd a) 80 80
                 else ANNOTATION_BBOX newId l (min (fst a) (fst b)) (min (snd a) (snd b))
                        (max 5 \<bar>fst b - fst a\<bar>) (max 5 \<bar>snd b - snd a\<bar>))
      in addAnnotation now st cf isGlobal box)"
proof (cases "tool st = TOOL_BUOY_BOX")
  case True
  then show ?thesis
    by (simp add: finishDrawing_def Let_def createBBox_def hypot_def CLICK_DRAG_THRESHOLD_def
        DEFAULT_BBOX_SIZE_def MIN_BBOX_SIDE_def)
next
  case False
  with tl have "tool st = TOOL_BOAT_BOX" by simp
  then show ?thesis
    by (simp add: finishDrawing_def Let_def createBBox_def hypot_def CLICK_DRAG_THRESHOLD_def
        DEFAULT_BBOX_SIZE_def MIN_BBOX_SIDE_def)
qed

text \<open>What a mouse-up does to the project at the end of a box tool's gesture.\<close>

lemma handleCanvasMouseUp_box:
  assumes cf: "currentFrame (project st) = Some cf"
    and tl: "tool st = TOOL_BOAT_BOX \<or> tool st = TOOL_BUOY_BOX"
    and dr: "isDragging st"
    and ds: "dragStart st = Some ds"
    and z: "zoom (viewport (project st)) \<noteq> 0"
  shows
    "(let vp = viewport (project st);
          isGlobal = (tool st = TOOL_BUOY_BOX);
          trans = newTransformer (width cf) (height cf) (zoom vp) (panX vp) (panY vp)
                    (if isGlobal then 0 else rotationDeg cf) (\<not> isGlobal);
          a = screenToImage trans (ds_x ds) (ds_y ds);
          b = screenToImage trans screenX screenY;
          l = (if isGlobal then LABEL_BUOY else LABEL_BOAT);
          box = (if sqrt ((screenX - ds_x ds)\<^sup>2 + (screenY - ds_y ds)\<^sup>2) < 5
                 then ANNOTATION_BBOX newId l (fst a) (snd a) 80 80
                 else ANNOTATION_BBOX newId l (min (fst a) (fst b)) (min (snd a) (snd b))
                        (max 5 \<bar>fst b - fst a\<bar>) (max 5 \<bar>snd b - snd a\<bar>));
          p' = project (handleCanvasMouseUp now st screenX screenY newId)
      in p' = (if isGlobal
               then (project st)\<lparr> globalBuoys := globalBuoys (project st) @ [box] \<rparr>
               else (project st)\<lparr> frames := (frames (project st))[nat (currentIndex (project st)) :=
                       cf\<lparr> annotations := annotations cf @ [box] \<rparr>] \<rparr>))"
proof -
  from cf have fr: "frames (project st) ! nat (currentIndex (project st)) = cf"
    by (simp add: currentFrame_SomeD)
  from tl have "tool st \<in> drawingTools" by (auto simp: drawingTools_def)
  then have up: "project (handleCanvasMouseUp now st screenX screenY newId)
      = project (finishDrawing now st cf ds screenX screenY newId)"
    using cf dr ds by (rule mouseUp_project)
  show ?thesis
    unfolding up finishDrawing_box [OF tl] Let_def addAnnotation_project fr ..
qed

text \<open>
  Claim C4. A box tool's gesture ends with a mouse-up while dragging. When the screen
  distance from the start to the end of the gesture is below 5, the new box is 80 by 80
  with its origin at the image-space point of the start; otherwise both ends are mapped to
  image space, the origin is the componentwise minimum of the two points and the width and
  height are the absolute differences, each raised to 5 when smaller. The box is appended
  to the global list for the buoy tool and to the current frame's list for the boat tool.
\<close>

theorem box_gesture:
  assumes cf: "currentFrame (project st) = Some cf"
    and tl: "tool st = TOOL_BOAT_BOX \<or> tool st = TOOL_BUOY_BOX"
    and dr: "isDragging st"
    and ds: "dragStart st = Some ds"
    and z: "zoom (viewport (project st)) \<noteq> 0"
  shows
    "(let vp = viewport (project st);
          isGlobal = (tool st = TOOL_BUOY_BOX);
          trans = newTransformer (width cf) (height cf) (zoom vp) (panX vp) (panY vp)
                    (if isGlobal then 0 else rotationDeg cf) (\<not> isGlobal);
          a = screenToImage trans (ds_x ds) (ds_y ds);
          b = screenToImage trans screenX screenY;
          l = (if isGlobal then LABEL_BUOY else LABEL_BOAT);
          box = (if sqrt ((screenX - ds_x ds)\<^sup>2 + (screenY - ds_y ds)\<^sup>2) < 5
                 then ANNOTATION_BBOX newId l (fst a) (snd a) 80 80
                 else ANNOTATION_BBOX newId l (min (fst a) (fst b)) (min (snd a) (snd b))
                        (max 5 \<bar>fst b - fst a\<bar>) (max 5 \<bar>snd b - snd a\<bar>));
          p' = project (handleCanvasMouseUp now st screenX screenY newId)
      in p' = (if isGlobal
               then (project st)\<lparr> globalBuoys := globalBuoys (project st) @ [box] \<rparr>
               else (project st)\<lparr> frames := (frames (project st))[nat (currentIndex (project st)) :=
                       cf\<lparr> annotations := annotations cf @ [box] \<rparr>] \<rparr>))"
proof -
  from tl have dt: "tool st \<in> drawingTools" by (auto simp: drawingTools_def)
  have up: "handleCanvasMouseUp now st screenX screenY newId
              = endDrag (finishDrawing now st cf ds screenX screenY newId)"
    by (simp add: handleCanvasMouseUp_def cf dt dr ds)
  have pe: "project (endDrag s) = project s" for s by (simp add: endDrag_def)
  from cf have fr: "frames (project st) ! nat (currentIndex (project st)) = cf"
    and ix: "nat (currentIndex (project st)) < length (frames (project st))"
    by (simp_all add: currentFrame_SomeD)
  show ?thesis
  proof (cases "tool st = TOOL_BUOY_BOX")
    case True
    then show ?thesis
      unfolding up pe finishDrawing_box [OF tl] Let_def addAnnotation_project by simp
  next
    case False
    then show ?thesis
      unfolding up pe finishDrawing_box [OF tl] Let_def addAnnotation_project fr by simp
  qed
qed

theorem box_gesture_witness:
  "currentFrame (project (exampleApp (exampleProject unitViewport [] []) TOOL_BOAT_BOX
       (Some (plainDrag 10 10)))) = Some (exampleFrame [])
   \<and> tool (exampleApp (exampleProject unitViewport [] []) TOOL_BOAT_BOX
       (Some (plainDrag 10 10))) = TOOL_BOAT_BOX
   \<and> isDragging (exampleApp (exampleProject unitViewport [] []) TOOL_BOAT_BOX
       (Some (plainDrag 10 10)))
   \<and> dragStart (exampleApp (exampleProject unitViewport [] []) TOOL_BOAT_BOX
       (Some (plainDrag 10 10))) = Some (plainDrag 10 10)
   \<and> zoom (viewport (project (exampleApp (exampleProject unitViewport [] []) TOOL_BOAT_BOX
       (Some (plainDrag 10 10))))) \<noteq> 0
   \<and> project (handleCanvasMouseUp 0 (exampleApp (exampleProject unitViewport [] []) TOOL_BOAT_BOX
       (Some (plainDrag 10 10))) (10 + 4999 / 1000) 10 ''n1'')
     = exampleProject unitViewport [ANNOTATION_BBOX ''n1'' LABEL_BOAT 10 10 80 80] []
   \<and> project (handleCanvasMouseUp 0 (exampleApp (exampleProject unitViewport [] []) TOOL_BOAT_BOX
       (Some (plainDrag 10 10))) (10 + 5001 / 1000) 10 ''n1'')
     = exampleProject unitViewport
         [ANNOTATION_BBOX ''n1'' LABEL_BOAT 10 10 (5001 / 1000) 5] []"
proof -
  let ?S = "exampleApp (exampleProject unitViewport [] []) TOOL_BOAT_BOX (Some (plainDrag 10 10))"
  have cf: "currentFrame (project ?S) = Some (exampleFrame [])" by (simp add: exampleApp_def)
  have t1: "tool ?S = TOOL_BOAT_BOX" by (simp add: exampleApp_def)
  then have tl: "tool ?S = TOOL_BOAT_BOX \<or> tool ?S = TOOL_BUOY_BOX" ..
  have dr: "isDragging ?S" by (simp add: exampleApp_def)
  have ds: "dragStart ?S = Some (plainDrag 10 10)" by (simp add: exampleApp_def)
  have z: "zoom (viewport (project ?S)) \<noteq> 0"
    by (simp add: exampleApp_def exampleProject_def unitViewport_def)
  note ev = exampleApp_def exampleProject_def exampleFrame_def unitViewport_def plainDrag_def
    newTransformer_def screenToImage_def sqrt_less_iff_sq power2_eq_square
  have a: "project (handleCanvasMouseUp 0 ?S (10 + 4999 / 1000) 10 ''n1'')
             = exampleProject unitViewport [ANNOTATION_BBOX ''n1'' LABEL_BOAT 10 10 80 80] []"
    using box_gesture [OF cf tl dr ds z, of "10 + 4999 / 1000" 10 "''n1''" 0, unfolded Let_def]
    by (simp add: ev)
  have b: "project (handleCanvasMouseUp 0 ?S (10 + 5001 / 1000) 10 ''n1'')
             = exampleProject unitViewport [ANNOTATION_BBOX ''n1'' LABEL_BOAT 10 10 (5001 / 1000) 5] []"
    using box_gesture [OF cf tl dr ds z, of "10 + 5001 / 1000" 10 "''n1''" 0, unfolded Let_def]
    by (simp add: ev)
  from cf t1 dr ds z a b show ?thesis by simp
qed

section \<open>Resizing and the minimum side\<close>

lemma findIndex_less: "findIndex P xs = Some i \<Longrightarrow> i < length xs"
  by (induction xs arbitrary: i) (auto split: if_splits)

lemma annotationsOf_frame_update:
  assumes "currentFrame p = Some cf"
  shows "annotationsOf (p\<lparr> frames := (frames p)[nat (currentIndex p) :=
            (frames p ! nat (currentIndex p))\<lparr> annotations := xs \<rparr>] \<rparr>) False = xs"
  using assms by (auto simp: annotationsOf_def currentFrame_def split: if_splits)

lemma annotationsOf_global_update:
  "annotationsOf (p\<lparr> globalBuoys := xs \<rparr>) True = xs"
  by (simp add: annotationsOf_def)

text \<open>The list a resize leaves behind, for a box found under the identifier.\<close>

lemma resizeAnnotation_box:
  assumes fi: "findIndex (\<lambda>a. ann_id a = i) (annotationsOf (project st) isGlobal) = Some idx"
    and bx: "annotationsOf (project st) isGlobal ! idx = ANNOTATION_BBOX i' l x y w h"
  shows "annotationsOf (project (resizeAnnotation now st i dw dh isGlobal nxt)) isGlobal
           = (annotationsOf (project st) isGlobal)[idx :=
                ANNOTATION_BBOX i' l x y (max 5 (w + dw)) (max 5 (h + dh))]"
proof (cases isGlobal)
  case True
  with fi bx show ?thesis
    by (simp add: resizeAnnotation_def Let_def updateGlobalBuoys_def updateProject_fields
        annotationsOf_global_update MIN_BBOX_SIDE_def)
next
  case False
  from findIndex_less [OF fi] False obtain cf where cf: "currentFrame (project st) = Some cf"
    by (auto simp: annotationsOf_def split: option.splits)
  from False fi bx show ?thesis
    by (simp add: resizeAnnotation_def Let_def updateFrameAnnotations_def updateProject_fields
        annotationsOf_frame_update [OF cf] MIN_BBOX_SIDE_def)
qed


lemma annotationsOf_frame_append:
  assumes "currentFrame p = Some cf"
  shows "annotationsOf (p\<lparr> frames := (frames p)[nat (currentIndex p) :=
            cf\<lparr> annotations := xs \<rparr>] \<rparr>) False = xs"
  using assms by (auto simp: annotationsOf_def currentFrame_def split: if_splits)

text \<open>
  Claim C5, as amended. A resize of a box found under its identifier sets the width and
  the height to the maximum of 5 and the old side plus the delta, whatever the delta, so
  both are at least 5 and nothing fails. A box tool's gesture whose screen distance reaches
  the threshold of 5 creates a box whose sides are the image-space extents, each raised to
  5 when smaller; a gesture below the threshold (a drag over 2 by 2 pixels is one) creates
  the 80 by 80 box.
\<close>

theorem min_side_clamp:
  "(\<forall>idx i' l x y w h.
      findIndex (\<lambda>a. ann_id a = i) (annotationsOf (project st) isGlobal) = Some idx
      \<and> annotationsOf (project st) isGlobal ! idx = ANNOTATION_BBOX i' l x y w h
      \<longrightarrow> annotationsOf (project (resizeAnnotation now st i dw dh isGlobal st)) isGlobal
            = (annotationsOf (project st) isGlobal)[idx :=
                 ANNOTATION_BBOX i' l x y (max 5 (w + dw)) (max 5 (h + dh))]
          \<and> 5 \<le> max 5 (w + dw) \<and> 5 \<le> max 5 (h + dh))
   \<and> (\<forall>cf ds.
        currentFrame (project st) = Some cf
        \<and> (tool st = TOOL_BOAT_BOX \<or> tool st = TOOL_BUOY_BOX)
        \<and> isDragging st \<and> dragStart st = Some ds \<and> zoom (viewport (project st)) \<noteq> 0
        \<longrightarrow> (let vp = viewport (project st);
                  glob = (tool st = TOOL_BUOY_BOX);
                  trans = newTransformer (width cf) (height cf) (zoom vp) (panX vp) (panY vp)
                            (if glob then 0 else rotationDeg cf) (\<not> glob);
                  a = screenToImage trans (ds_x ds) (ds_y ds);
                  b = screenToImage trans screenX screenY;
                  created = last (annotationsOf
                              (project (handleCanvasMouseUp now st screenX screenY newId)) glob)
              in if sqrt ((screenX - ds_x ds)\<^sup>2 + (screenY - ds_y ds)\<^sup>2) < 5
                 then ann_w created = 80 \<and> ann_h created = 80
                 else ann_w created = max 5 \<bar>fst b - fst a\<bar>
                    \<and> ann_h created = max 5 \<bar>snd b - snd a\<bar>
                    \<and> 5 \<le> ann_w created \<and> 5 \<le> ann_h created))"
proof (intro conjI allI impI)
  fix idx i' l x y w h
  assume "findIndex (\<lambda>a. ann_id a = i) (annotationsOf (project st) isGlobal) = Some idx
      \<and> annotationsOf (project st) isGlobal ! idx = ANNOTATION_BBOX i' l x y w h"
  then show "annotationsOf (project (resizeAnnotation now st i dw dh isGlobal st)) isGlobal
            = (annotationsOf (project st) isGlobal)[idx :=
                 ANNOTATION_BBOX i' l x y (max 5 (w + dw)) (max 5 (h + dh))]"
    by (simp add: resizeAnnotation_box)
next
  fix cf ds
  assume h: "currentFrame (project st) = Some cf
        \<and> (tool st = TOOL_BOAT_BOX \<or> tool st = TOOL_BUOY_BOX)
        \<and> isDragging st \<and> dragStart st = Some ds \<and> zoom (viewport (project st)) \<noteq> 0"
  then have cf: "currentFrame (project st) = Some cf" by simp
  from h have B: "project (handleCanvasMouseUp now st screenX screenY newId) =
      (let vp = viewport (project st);
          isGlobal = (tool st = TOOL_BUOY_BOX);
          trans = newTransformer (width cf) (height cf) (zoom vp) (panX vp) (panY vp)
                    (if isGlobal then 0 else rotationDeg cf) (\<not> isGlobal);
          a = screenToImage trans (ds_x ds) (ds_y ds);
          b = screenToImage trans screenX screenY;
          l = (if isGlobal then LABEL_BUOY else LABEL_BOAT);
          box = (if sqrt ((screenX - ds_x ds)\<^sup>2 + (screenY - ds_y ds)\<^sup>2) < 5
                 then ANNOTATION_BBOX newId l (fst a) (snd a) 80 80
                 else ANNOTATION_BBOX newId l (min (fst a) (fst b)) (min (snd a) (snd b))
                        (max 5 \<bar>fst b - fst a\<bar>) (max 5 \<bar>snd b - snd a\<bar>))
       in if isGlobal
               then (project st)\<lparr> globalBuoys := globalBuoys (project st) @ [box] \<rparr>
               else (project st)\<lparr> frames := (frames (project st))[nat (currentIndex (project st)) :=
                       cf\<lparr> annotations := annotations cf @ [box] \<rparr>] \<rparr>)"
    using handleCanvasMouseUp_box [of st cf ds screenX screenY newId now]
    by (simp add: Let_def)
  show "(let vp = viewport (project st);
                  glob = (tool st = TOOL_BUOY_BOX);
                  trans = newTransformer (width cf) (height cf) (zoom vp) (panX vp) (panY vp)
                            (if glob then 0 else rotationDeg cf) (\<not> glob);
                  a = screenToImage trans (ds_x ds) (ds_y ds);
                  b = screenToImage trans screenX screenY;
                  created = last (annotationsOf
                              (project (handleCanvasMouseUp now st screenX screenY newId)) glob)
              in if sqrt ((screenX - ds_x ds)\<^sup>2 + (screenY - ds_y ds)\<^sup>2) < 5
                 then ann_w created = 80 \<and> ann_h created = 80
                 else ann_w created = max 5 \<bar>fst b - fst a\<bar>
                    \<and> ann_h created = max 5 \<bar>snd b - snd a\<bar>
                    \<and> 5 \<le> ann_w created \<and> 5 \<le> ann_h created)"
    unfolding B Let_def
    by (simp add: annotationsOf_frame_append [OF cf] annotationsOf_global_update)
qed simp_all


theorem min_side_clamp_witness:
  "findIndex (\<lambda>a. ann_id a = ''a'')
      (annotationsOf (project (exampleApp (exampleProject unitViewport
          [ANNOTATION_BBOX ''a'' LABEL_BOAT 10 10 50 50] []) TOOL_SELECT None)) False) = Some 0
   \<and> annotationsOf (project (exampleApp (exampleProject unitViewport
          [ANNOTATION_BBOX ''a'' LABEL_BOAT 10 10 50 50] []) TOOL_SELECT None)) False ! 0
       = ANNOTATION_BBOX ''a'' LABEL_BOAT 10 10 50 50
   \<and> annotationsOf (project (resizeAnnotation 0
          (exampleApp (exampleProject unitViewport
             [ANNOTATION_BBOX ''a'' LABEL_BOAT 10 10 50 50] []) TOOL_SELECT None)
          ''a'' (- 48) (- 48) False
          (exampleApp (exampleProject unitViewport
             [ANNOTATION_BBOX ''a'' LABEL_BOAT 10 10 50 50] []) TOOL_SELECT None))) False
       = [ANNOTATION_BBOX ''a'' LABEL_BOAT 10 10 5 5]
   \<and> currentFrame (project (exampleApp (exampleProject \<lparr> zoom = 4, panX = 0, panY = 0 \<rparr> [] [])
          TOOL_BOAT_BOX (Some (plainDrag 40 40)))) = Some (exampleFrame [])
   \<and> tool (exampleApp (exampleProject \<lparr> zoom = 4, panX = 0, panY = 0 \<rparr> [] [])
          TOOL_BOAT_BOX (Some (plainDrag 40 40))) = TOOL_BOAT_BOX
   \<and> isDragging (exampleApp (exampleProject \<lparr> zoom = 4, panX = 0, panY = 0 \<rparr> [] [])
          TOOL_BOAT_BOX (Some (plainDrag 40 40)))
   \<and> dragStart (exampleApp (exampleProject \<lparr> zoom = 4, panX = 0, panY = 0 \<rparr> [] [])
          TOOL_BOAT_BOX (Some (plainDrag 40 40))) = Some (plainDrag 40 40)
   \<and> zoom (viewport (project (exampleApp (exampleProject \<lparr> zoom = 4, panX = 0, panY = 0 \<rparr> [] [])
          TOOL_BOAT_BOX (Some (plainDrag 40 40))))) \<noteq> 0
   \<and> ann_w (last (annotationsOf (project (handleCanvasMouseUp 0
          (exampleApp (exampleProject \<lparr> zoom = 4, panX = 0, panY = 0 \<rparr> [] [])
             TOOL_BOAT_BOX (Some (plainDrag 40 40))) 48 48 ''n1'')) False)) = 5
   \<and> ann_h (last (annotationsOf (project (handleCanvasMouseUp 0
          (exampleApp (exampleProject \<lparr> zoom = 4, panX = 0, panY = 0 \<rparr> [] [])
             TOOL_BOAT_BOX (Some (plainDrag 40 40))) 48 48 ''n1'')) False)) = 5"
proof -
  let ?S1 = "exampleApp (exampleProject unitViewport
               [ANNOTATION_BBOX ''a'' LABEL_BOAT 10 10 50 50] []) TOOL_SELECT None"
  let ?S2 = "exampleApp (exampleProject \<lparr> zoom = 4, panX = 0, panY = 0 \<rparr> [] [])
               TOOL_BOAT_BOX (Some (plainDrag 40 40))"
  have an: "annotationsOf (project ?S1) False = [ANNOTATION_BBOX ''a'' LABEL_BOAT 10 10 50 50]"
    by (simp add: annotationsOf_def exampleApp_def exampleFrame_def)
  have fi: "findIndex (\<lambda>a. ann_id a = ''a'') (annotationsOf (project ?S1) False) = Some 0"
    by (simp add: an)
  have bx: "annotationsOf (project ?S1) False ! 0 = ANNOTATION_BBOX ''a'' LABEL_BOAT 10 10 50 50"
    by (simp add: an)
  have r: "annotationsOf (project (resizeAnnotation 0 ?S1 ''a'' (- 48) (- 48) False ?S1)) False
             = [ANNOTATION_BBOX ''a'' LABEL_BOAT 10 10 5 5]"
    using min_side_clamp [of "''a''" ?S1 False 0 "- 48" "- 48", THEN conjunct1, THEN spec,
        THEN spec, THEN spec, THEN spec, THEN spec, THEN spec, THEN spec, THEN mp,
        OF conjI [OF fi bx], THEN conjunct1]
    by (simp add: an)
  have cf: "currentFrame (project ?S2) = Some (exampleFrame [])" by (simp add: exampleApp_def)
  have tl: "tool ?S2 = TOOL_BOAT_BOX" by (simp add: exampleApp_def)
  have dr: "isDragging ?S2" by (simp add: exampleApp_def)
  have ds: "dragStart ?S2 = Some (plainDrag 40 40)" by (simp add: exampleApp_def)
  have z: "zoom (viewport (project ?S2)) \<noteq> 0" by (simp add: exampleApp_def exampleProject_def)
  have hyp: "currentFrame (project ?S2) = Some (exampleFrame [])
        \<and> (tool ?S2 = TOOL_BOAT_BOX \<or> tool ?S2 = TOOL_BUOY_BOX)
        \<and> isDragging ?S2 \<and> dragStart ?S2 = Some (plainDrag 40 40)
        \<and> zoom (viewport (project ?S2)) \<noteq> 0"
    using cf tl dr ds z by simp
  have c: "ann_w (last (annotationsOf (project (handleCanvasMouseUp 0 ?S2 48 48 ''n1'')) False)) = 5
         \<and> ann_h (last (annotationsOf (project (handleCanvasMouseUp 0 ?S2 48 48 ''n1'')) False)) = 5"
    using min_side_clamp [of _ ?S2 _ 0 _ _ 48 48 "''n1''", THEN conjunct2, THEN spec, THEN spec,
        THEN mp, OF hyp, unfolded Let_def]
    by (simp add: tl exampleApp_def exampleProject_def exampleFrame_def plainDrag_def
        newTransformer_def screenToImage_def sqrt_less_iff_sq power2_eq_square)
  from fi bx r cf tl dr ds z c show ?thesis by simp
qed

theorem small_drag_default_box:
  "project (handleCanvasMouseUp 0
      (exampleApp (exampleProject unitViewport [] []) TOOL_BOAT_BOX (Some (plainDrag 10 10)))
      12 12 ''n1'')
     = exampleProject unitViewport [ANNOTATION_BBOX ''n1'' LABEL_BOAT 10 10 80 80] []
   \<and> ann_w (last (annotationsOf (project (handleCanvasMouseUp 0
        (exampleApp (exampleProject unitViewport [] []) TOOL_BOAT_BOX (Some (plainDrag 10 10)))
        12 12 ''n1'')) False)) \<noteq> 5"
proof -
  let ?S = "exampleApp (exampleProject unitViewport [] []) TOOL_BOAT_BOX (Some (plainDrag 10 10))"
  have cf: "currentFrame (project ?S) = Some (exampleFrame [])" by (simp add: exampleApp_def)
  have tl: "tool ?S = TOOL_BOAT_BOX \<or> tool ?S = TOOL_BUOY_BOX" by (simp add: exampleApp_def)
  have dr: "isDragging ?S" by (simp add: exampleApp_def)
  have ds: "dragStart ?S = Some (plainDrag 10 10)" by (simp add: exampleApp_def)
  have z: "zoom (viewport (project ?S)) \<noteq> 0"
    by (simp add: exampleApp_def exampleProject_def unitViewport_def)
  have a: "project (handleCanvasMouseUp 0 ?S 12 12 ''n1'')
             = exampleProject unitViewport [ANNOTATION_BBOX ''n1'' LABEL_BOAT 10 10 80 80] []"
    using handleCanvasMouseUp_box [OF cf tl dr ds z, of 12 12 "''n1''" 0, unfolded Let_def]
    by (simp add: exampleApp_def exampleProject_def exampleFrame_def unitViewport_def
        plainDrag_def newTransformer_def screenToImage_def sqrt_less_iff_sq power2_eq_square)
  show ?thesis
    unfolding a by (simp add: annotationsOf_def exampleFrame_def)
qed

section \<open>Debounced saving\<close>

lemma runTimers_fields:
  "project (runTimers now st) = project st"
  "tool (runTimers now st) = tool st"
  "selection (runTimers now st) = selection st"
  "isDragging (runTimers now st) = isDragging st"
  "dragStart (runTimers now st) = dragStart st"
  "saveTimeoutRef (runTimers now st) = saveTimeoutRef st"
  "nextTimerId (runTimers now st) = nextTimerId st"
  "hasFileHandle (runTimers now st) = hasFileHandle st"
  by (simp_all add: runTimers_def)




















section \<open>What an import keeps\<close>

lemma setFrames_project:
  "project (setFrames captured st fs) = captured\<lparr> frames := fs, currentIndex := 0 \<rparr>"
  by (simp add: setFrames_def)

lemma import_installs:
  "project (handleOpenFile captured st opened) = project st
     \<or> (\<exists>fs. fs \<noteq> [] \<and> project (handleOpenFile captured st opened)
                = captured\<lparr> frames := fs, currentIndex := 0 \<rparr>)"
  "project (handleFileInputChange captured st file) = project st
     \<or> (\<exists>fs. fs \<noteq> [] \<and> project (handleFileInputChange captured st file)
                = captured\<lparr> frames := fs, currentIndex := 0 \<rparr>)"
  "project (handleFolderInputChange captured st files) = project st
     \<or> (\<exists>fs. fs \<noteq> [] \<and> project (handleFolderInputChange captured st files)
                = captured\<lparr> frames := fs, currentIndex := 0 \<rparr>)"
  "project (handleOpenFolder captured st listing) = project st
     \<or> (\<exists>fs. fs \<noteq> [] \<and> project (handleOpenFolder captured st listing)
                = captured\<lparr> frames := fs, currentIndex := 0 \<rparr>)"
  by (auto simp: handleOpenFile_def handleFileInputChange_def handleFolderInputChange_def
      handleOpenFolder_def setFrames_project Let_def split: picked.splits option.splits)

text \<open>
  What an import installs. Each of the four import handlers either leaves the project as
  it is when the handler ends (no file, a cancelled or failed pick, no image that loads)
  or hands \<^verbatim>\<open>setProject\<close> the project of its closure with a new, non-empty frame list
  and the current index 0. A single image that loads becomes the only frame; the images
  of a folder that load become the frames, in order. So the global buoys, the viewport,
  the version and the creation time after the import are those of the project in which
  the handler was started: they are those of the project the import replaces when no
  update came in between.
\<close>

theorem import_installs_captured:
  "(let installs = (\<lambda>st'.
          project st' = project st
          \<or> (\<exists>fs. fs \<noteq> [] \<and> project st' = captured\<lparr> frames := fs, currentIndex := 0 \<rparr>))
    in installs (handleOpenFile captured st opened)
     \<and> installs (handleFileInputChange captured st file)
     \<and> installs (handleFolderInputChange captured st files)
     \<and> installs (handleOpenFolder captured st listing))
   \<and> project (handleFileInputChange captured st (Some (ImageFile nm (Some fd))))
       = captured\<lparr> frames := [newFrame fd], currentIndex := 0 \<rparr>
   \<and> project (handleOpenFile captured st (Picked (ImageFile nm (Some fd))))
       = captured\<lparr> frames := [newFrame fd], currentIndex := 0 \<rparr>
   \<and> (loadImages files \<noteq> [] \<longrightarrow>
        project (handleFolderInputChange captured st files)
          = captured\<lparr> frames := map newFrame (loadImages files), currentIndex := 0 \<rparr>)
   \<and> (loadImages (map entry_file (filter is_file entries)) \<noteq> [] \<longrightarrow>
        project (handleOpenFolder captured st (Picked entries))
          = captured\<lparr> frames := map newFrame (loadImages (map entry_file (filter is_file entries))),
                       currentIndex := 0 \<rparr>)
   \<and> (captured = project st \<longrightarrow>
        (let keeps = (\<lambda>st'.
              globalBuoys (project st') = globalBuoys (project st)
              \<and> viewport (project st') = viewport (project st)
              \<and> version (project st') = version (project st)
              \<and> createdAt (project st') = createdAt (project st))
         in keeps (handleOpenFile captured st opened)
          \<and> keeps (handleFileInputChange captured st file)
          \<and> keeps (handleFolderInputChange captured st files)
          \<and> keeps (handleOpenFolder captured st listing)))"
proof -
  note a = import_installs(1) [of captured st opened]
    and b = import_installs(2) [of captured st "file"]
    and c = import_installs(3) [of captured st files]
    and d = import_installs(4) [of captured st listing]
  have rest: "globalBuoys (project s) = globalBuoys (project st)
          \<and> viewport (project s) = viewport (project st)
          \<and> version (project s) = version (project st)
          \<and> createdAt (project s) = createdAt (project st)"
    if "project s = project st
      \<or> (\<exists>fs. fs \<noteq> [] \<and> project s = captured\<lparr> frames := fs, currentIndex := 0 \<rparr>)"
      and "captured = project st" for s
    using that by auto
  have e: "loadImages files \<noteq> [] \<longrightarrow>
        project (handleFolderInputChange captured st files)
          = captured\<lparr> frames := map newFrame (loadImages files), currentIndex := 0 \<rparr>"
    by (cases files) (auto simp: handleFolderInputChange_def setFrames_project Let_def)
  have f: "loadImages (map entry_file (filter is_file entries)) \<noteq> [] \<longrightarrow>
        project (handleOpenFolder captured st (Picked entries))
          = captured\<lparr> frames := map newFrame (loadImages (map entry_file (filter is_file entries))),
                       currentIndex := 0 \<rparr>"
    by (cases "filter is_file entries")
       (auto simp: handleOpenFolder_def loadFolder_def setFrames_project Let_def)
  have g: "project (handleFileInputChange captured st (Some (ImageFile nm (Some fd))))
       = captured\<lparr> frames := [newFrame fd], currentIndex := 0 \<rparr>"
    "project (handleOpenFile captured st (Picked (ImageFile nm (Some fd))))
       = captured\<lparr> frames := [newFrame fd], currentIndex := 0 \<rparr>"
    by (simp_all add: handleFileInputChange_def handleOpenFile_def setFrames_project)
  show ?thesis
    unfolding Let_def
    using a b c d rest [OF a] rest [OF b] rest [OF c] rest [OF d] e f g
    by blast
qed

theorem import_installs_captured_witness:
  "loadImages [ImageFile ''b.PNG'' (Some \<lparr> fd_name = ''b.PNG'', fd_url = ''data:b'',
                                             fd_width = 64, fd_height = 48 \<rparr>),
               ImageFile ''notes.txt'' None,
               ImageFile ''a.jpg'' (Some \<lparr> fd_name = ''a.jpg'', fd_url = ''data:a'',
                                             fd_width = 32, fd_height = 24 \<rparr>)] \<noteq> []
   \<and> project (handleFolderInputChange
        (exampleProject \<lparr> zoom = 2, panX = 5, panY = 7 \<rparr>
           [ANNOTATION_POINT ''p'' LABEL_BOAT 1 2] [ANNOTATION_POINT ''g'' LABEL_BUOY 150 80])
        (exampleApp (exampleProject \<lparr> zoom = 3, panX = 0, panY = 0 \<rparr>
           [ANNOTATION_POINT ''p'' LABEL_BOAT 1 2] [])
           TOOL_SELECT None)
        [ImageFile ''b.PNG'' (Some \<lparr> fd_name = ''b.PNG'', fd_url = ''data:b'',
                                       fd_width = 64, fd_height = 48 \<rparr>),
         ImageFile ''notes.txt'' None,
         ImageFile ''a.jpg'' (Some \<lparr> fd_name = ''a.jpg'', fd_url = ''data:a'',
                                       fd_width = 32, fd_height = 24 \<rparr>)])
     = \<lparr> version = 1, createdAt = ''2024-10-17T12:00:00Z'',
         viewport = \<lparr> zoom = 2, panX = 5, panY = 7 \<rparr>, currentIndex = 0,
         frames = [\<lparr> name = ''b.PNG'', url = ''data:b'', width = 64, height = 48,
                     rotationDeg = 0, annotations = [] \<rparr>,
                   \<lparr> name = ''a.jpg'', url = ''data:a'', width = 32, height = 24,
                     rotationDeg = 0, annotations = [] \<rparr>],
         globalBuoys = [ANNOTATION_POINT ''g'' LABEL_BUOY 150 80] \<rparr>
   \<and> globalBuoys (project (handleOpenFolder
        (exampleProject unitViewport [] [ANNOTATION_POINT ''g'' LABEL_BUOY 150 80])
        (exampleApp (exampleProject unitViewport [] [ANNOTATION_POINT ''g'' LABEL_BUOY 150 80])
           TOOL_SELECT None)
        (Picked [DirEntry True (ImageFile ''c.bmp''
           (Some \<lparr> fd_name = ''c.bmp'', fd_url = ''data:c'', fd_width = 8, fd_height = 8 \<rparr>))])))
     = [ANNOTATION_POINT ''g'' LABEL_BUOY 150 80]"
proof -
  let ?files = "[ImageFile ''b.PNG'' (Some \<lparr> fd_name = ''b.PNG'', fd_url = ''data:b'',
                                             fd_width = 64, fd_height = 48 \<rparr>),
               ImageFile ''notes.txt'' None,
               ImageFile ''a.jpg'' (Some \<lparr> fd_name = ''a.jpg'', fd_url = ''data:a'',
                                             fd_width = 32, fd_height = 24 \<rparr>)]"
  let ?C = "exampleProject \<lparr> zoom = 2, panX = 5, panY = 7 \<rparr>
           [ANNOTATION_POINT ''p'' LABEL_BOAT 1 2] [ANNOTATION_POINT ''g'' LABEL_BUOY 150 80]"
  let ?S = "exampleApp (exampleProject \<lparr> zoom = 3, panX = 0, panY = 0 \<rparr>
           [ANNOTATION_POINT ''p'' LABEL_BOAT 1 2] [])
           TOOL_SELECT None"
  let ?P = "exampleProject unitViewport [] [ANNOTATION_POINT ''g'' LABEL_BUOY 150 80]"
  have li: "loadImages ?files
      = [\<lparr> fd_name = ''b.PNG'', fd_url = ''data:b'', fd_width = 64, fd_height = 48 \<rparr>,
         \<lparr> fd_name = ''a.jpg'', fd_url = ''data:a'', fd_width = 32, fd_height = 24 \<rparr>]"
    by (simp add: extensionOf_def toLowerCase_def lowerChar_def imageExts_def)
  then have ne: "loadImages ?files \<noteq> []" by simp
  note X = import_installs_captured [of ?S ?C _ _ ?files, THEN conjunct2, THEN conjunct2,
      THEN conjunct2, THEN conjunct1, THEN mp, OF ne]
  have same: "?P = project (exampleApp ?P TOOL_SELECT None)" by (simp add: exampleApp_def)
  note Y = import_installs_captured [of "exampleApp ?P TOOL_SELECT None" ?P, THEN conjunct2,
      THEN conjunct2, THEN conjunct2, THEN conjunct2, THEN conjunct2, THEN mp, OF same,
      unfolded Let_def, THEN conjunct2, THEN conjunct2, THEN conjunct2, THEN conjunct1]
  have b: "globalBuoys (project (exampleApp ?P TOOL_SELECT None))
      = [ANNOTATION_POINT ''g'' LABEL_BUOY 150 80]"
    by (simp add: exampleApp_def exampleProject_def)
  show ?thesis
    unfolding X li Y b using ne
    by (simp add: newFrame_def exampleProject_def li)
qed

text \<open>
  No import schedules a save: whatever the four handlers do to the project, the pending
  timeouts, the timeout that \<^verbatim>\<open>saveTimeoutRef\<close> holds and the saved backups are those
  of before. \<^verbatim>\<open>triggerSave\<close> is not called.
\<close>

theorem import_leaves_timers:
  "timers (handleOpenFile captured st opened) = timers st
   \<and> saveTimeoutRef (handleOpenFile captured st opened) = saveTimeoutRef st
   \<and> backups (handleOpenFile captured st opened) = backups st
   \<and> timers (handleFileInputChange captured st chosen) = timers st
   \<and> saveTimeoutRef (handleFileInputChange captured st chosen) = saveTimeoutRef st
   \<and> backups (handleFileInputChange captured st chosen) = backups st
   \<and> timers (handleFolderInputChange captured st files) = timers st
   \<and> saveTimeoutRef (handleFolderInputChange captured st files) = saveTimeoutRef st
   \<and> backups (handleFolderInputChange captured st files) = backups st
   \<and> timers (handleOpenFolder captured st listing) = timers st
   \<and> saveTimeoutRef (handleOpenFolder captured st listing) = saveTimeoutRef st
   \<and> backups (handleOpenFolder captured st listing) = backups st"
  by (simp add: handleOpenFile_def handleFileInputChange_def handleFolderInputChange_def
      handleOpenFolder_def setFrames_def Let_def split: picked.split option.split)

text \<open>
  Claim C10 fails on the code. An import is asynchronous, and what it hands to
  \<^verbatim>\<open>setProject\<close> is built from the project of the render in which it was started. On
  a project with the global buoy \<open>g\<close>, a folder import is started; while its image is
  decoded, a click with the buoy point tool adds the global buoy \<open>n1\<close>, and the project
  holds both; then the import ends and the project holds \<open>g\<close> alone: the import has
  changed the global buoy list.
\<close>

theorem import_drops_concurrent_edit:
  "map_option (globalBuoys \<circ> project)
     (run [(0, MouseDown 40 40), (10, MouseUp 40 40 ''n1'')]
        (exampleApp (exampleProject unitViewport [] [ANNOTATION_POINT ''g'' LABEL_BUOY 150 80])
           TOOL_BUOY_POINT None))
     = Some [ANNOTATION_POINT ''g'' LABEL_BUOY 150 80, ANNOTATION_POINT ''n1'' LABEL_BUOY 40 40]
   \<and> map_option project
     (run [(0, MouseDown 40 40), (10, MouseUp 40 40 ''n1''),
           (20, FolderInput 2 [ImageFile ''b.png''
              (Some \<lparr> fd_name = ''b.png'', fd_url = ''data:b'', fd_width = 64, fd_height = 48 \<rparr>)])]
        (exampleApp (exampleProject unitViewport [] [ANNOTATION_POINT ''g'' LABEL_BUOY 150 80])
           TOOL_BUOY_POINT None))
     = Some \<lparr> version = 1, createdAt = ''2024-10-17T12:00:00Z'', viewport = unitViewport,
              currentIndex = 0,
              frames = [\<lparr> name = ''b.png'', url = ''data:b'', width = 64, height = 48,
                          rotationDeg = 0, annotations = [] \<rparr>],
              globalBuoys = [ANNOTATION_POINT ''g'' LABEL_BUOY 150 80] \<rparr>"
proof -
  let ?g = "ANNOTATION_POINT ''g'' LABEL_BUOY 150 80"
  let ?n = "ANNOTATION_POINT ''n1'' LABEL_BUOY 40 40"
  let ?P = "exampleProject unitViewport [] [?g]"
  let ?S = "exampleApp ?P TOOL_BUOY_POINT None"
  let ?files = "[ImageFile ''b.png''
      (Some \<lparr> fd_name = ''b.png'', fd_url = ''data:b'', fd_width = 64, fd_height = 48 \<rparr>)]"
  define S1 where "S1 = ?S\<lparr> isDragging := True, dragStart := Some (plainDrag 40 40) \<rparr>"
  define S2 where "S2 = handleCanvasMouseUp 10 S1 40 40 ''n1''"
  have idle0: "runTimers 0 ?S = ?S" by (simp add: runTimers_def exampleApp_def)
  have down: "handleCanvasMouseDown ?S 40 40 = S1"
    by (simp add: handleCanvasMouseDown_def S1_def exampleApp_def drawingTools_def)
  have idle1: "runTimers 10 S1 = S1" by (simp add: runTimers_def S1_def exampleApp_def)
  have p1: "project S1 = ?P" by (simp add: S1_def exampleApp_def)
  have t1: "tool S1 = TOOL_BUOY_POINT" by (simp add: S1_def exampleApp_def)
  have "project S2 = project (finishDrawing 10 S1 (exampleFrame []) (plainDrag 40 40) 40 40 ''n1'')"
    unfolding S2_def
    by (rule mouseUp_project) (simp_all add: S1_def exampleApp_def drawingTools_def)
  also have "\<dots> = ?P\<lparr> globalBuoys := [?g, ?n] \<rparr>"
    by (simp add: finishDrawing_def Let_def addAnnotation_project createPoint_def p1 t1
        screenToImage_def newTransformer_def plainDrag_def exampleProject_def
        exampleFrame_def unitViewport_def)
  finally have p2: "project S2 = ?P\<lparr> globalBuoys := [?g, ?n] \<rparr>" .
  have r2: "run [(0, MouseDown 40 40), (10, MouseUp 40 40 ''n1'')] ?S = Some S2"
    by (simp add: run_def handleEvent_def idle0 down idle1 S2_def)
  have c: "closureProject [project S1, project ?S] (runTimers 20 S2) 2 = ?P"
    by (simp add: closureProject_def exampleApp_def)
  have r3: "run [(0, MouseDown 40 40), (10, MouseUp 40 40 ''n1''), (20, FolderInput 2 ?files)] ?S
      = Some (handleFolderInputChange ?P (runTimers 20 S2) ?files)"
    by (simp add: run_def handleEvent_def idle0 down idle1 S2_def [symmetric] c
        del: loadImages.simps)
  have li: "loadImages ?files
      = [\<lparr> fd_name = ''b.png'', fd_url = ''data:b'', fd_width = 64, fd_height = 48 \<rparr>]"
    by (simp add: extensionOf_def toLowerCase_def lowerChar_def imageExts_def)
  have p3: "project (handleFolderInputChange ?P (runTimers 20 S2) ?files)
      = ?P\<lparr> frames := [newFrame \<lparr> fd_name = ''b.png'', fd_url = ''data:b'',
                                    fd_width = 64, fd_height = 48 \<rparr>], currentIndex := 0 \<rparr>"
    unfolding handleFolderInputChange_def li by (simp add: setFrames_project)
  show ?thesis
    unfolding r2 r3 by (simp add: p2 p3, simp add: exampleProject_def newFrame_def)
qed

section \<open>Validation of a loaded project\<close>

lemma truthy_iff:
  "truthy v = (v \<noteq> None \<and> v \<noteq> Some JNull \<and> v \<noteq> Some (JBool False) \<and> v \<noteq> Some (JNum 0)
               \<and> v \<noteq> Some (JStr []))"
  by (cases v rule: truthy.cases) auto

lemma isArray_truthy: "isArray v \<Longrightarrow> truthy v"
  by (cases v rule: isArray.cases) auto

lemma validStructure_iff:
  "validStructure j = Inr True \<longleftrightarrow> truthy (field j ''version'') \<and> isArray (field j ''frames'')"
  by (cases j) (auto simp: validStructure_def field_def isArray_truthy split: sum.splits)

lemma decideLoad_iff:
  "decideLoad parsed = SetProject j
     \<longleftrightarrow> parsed = Some j \<and> truthy (field j ''version'') \<and> isArray (field j ''frames'')"
proof (cases parsed)
  case None
  then show ?thesis by (simp add: decideLoad_def)
next
  case (Some j0)
  have "validStructure j0 = Inr True \<or> validStructure j0 = Inr False
        \<or> (\<exists>e. validStructure j0 = Inl e)"
    by (cases "validStructure j0") auto
  then show ?thesis
    using validStructure_iff [of j0]
    by (auto simp: decideLoad_def Some split: sum.splits bool.splits)
qed

lemma applyLoad_rejected:
  "(\<forall>j. d \<noteq> SetProject j) \<Longrightarrow> applyLoad st d = Some st"
  by (cases d) (auto simp: applyLoad_def)

lemma projectOfJson_exampleFile:
  "projectOfJson (exampleFile v idx z)
     = Some ((exampleProject \<lparr> zoom = z, panX = 0, panY = 0 \<rparr> [] [])
               \<lparr> version := v, currentIndex := idx \<rparr>)"
  by (simp add: projectOfJson_def exampleFile_def field_def viewportOfJson_def asIndex_def
      annotationsOfJson_def frameOfJson_def exampleProject_def exampleFrame_def)

lemma decideLoad_exampleFile:
  "decideLoad (Some (exampleFile v idx z))
     = (if v = 0 then InvalidFormat else SetProject (exampleFile v idx z))"
  by (simp add: decideLoad_def validStructure_def exampleFile_def)

text \<open>
  Claim C8, as amended. A candidate file is accepted exactly when its text parses to a
  value whose \<^verbatim>\<open>version\<close> is truthy (present and not \<^verbatim>\<open>null\<close>, \<^verbatim>\<open>false\<close>,
  0 or the empty string) and whose \<^verbatim>\<open>frames\<close> is an array. When it is not accepted
  (no file, a picker that is missing or throws, text that does not parse, \<^verbatim>\<open>null\<close>, or a
  value that fails the test) the state is the one of before. An accepted object replaces
  the project and clears the selection.
\<close>

theorem load_accepts_truthy_version:
  "(decideLoad parsed = SetProject j
      \<longleftrightarrow> parsed = Some j \<and> truthy (field j ''version'') \<and> isArray (field j ''frames''))
   \<and> truthy v = (v \<noteq> None \<and> v \<noteq> Some JNull \<and> v \<noteq> Some (JBool False) \<and> v \<noteq> Some (JNum 0)
                 \<and> v \<noteq> Some (JStr []))
   \<and> ((\<forall>j'. decideLoad parsed \<noteq> SetProject j')
        \<longrightarrow> handleProjectFileInput st (Some parsed) = Some st
          \<and> handleLoadProject st (Picked parsed) = Some st)
   \<and> handleProjectFileInput st None = Some st
   \<and> handleLoadProject st NoPicker = Some st
   \<and> handleLoadProject st (PickerThrew nm) = Some st
   \<and> (\<forall>p. decideLoad parsed = SetProject j \<and> projectOfJson j = Some p
        \<longrightarrow> handleProjectFileInput st (Some parsed) = Some (st\<lparr> project := p, selection := None \<rparr>)
          \<and> handleLoadProject st (Picked parsed) = Some (st\<lparr> project := p, selection := None \<rparr>))"
proof (intro conjI allI impI)
  show "decideLoad parsed = SetProject j
      \<longleftrightarrow> parsed = Some j \<and> truthy (field j ''version'') \<and> isArray (field j ''frames'')"
    by (rule decideLoad_iff)
  show "truthy v = (v \<noteq> None \<and> v \<noteq> Some JNull \<and> v \<noteq> Some (JBool False) \<and> v \<noteq> Some (JNum 0)
                 \<and> v \<noteq> Some (JStr []))"
    by (rule truthy_iff)
next
  assume r: "\<forall>j'. decideLoad parsed \<noteq> SetProject j'"
  show "handleProjectFileInput st (Some parsed) = Some st"
    using r by (simp add: handleProjectFileInput_def applyLoad_rejected)
  show "handleLoadProject st (Picked parsed) = Some st"
    using r by (simp add: handleLoadProject_def applyLoad_rejected)
next
  fix p
  assume a: "decideLoad parsed = SetProject j \<and> projectOfJson j = Some p"
  show "handleProjectFileInput st (Some parsed) = Some (st\<lparr> project := p, selection := None \<rparr>)"
    using a by (simp add: handleProjectFileInput_def applyLoad_def)
  show "handleLoadProject st (Picked parsed) = Some (st\<lparr> project := p, selection := None \<rparr>)"
    using a by (simp add: handleLoadProject_def applyLoad_def)
qed (simp_all add: handleProjectFileInput_def handleLoadProject_def)


theorem load_accepts_truthy_version_witness:
  "decideLoad (Some (exampleFile 1 0 1)) = SetProject (exampleFile 1 0 1)
   \<and> projectOfJson (exampleFile 1 0 1) = Some (exampleProject unitViewport [] [])
   \<and> handleProjectFileInput
        (exampleApp (exampleProject \<lparr> zoom = 2, panX = 5, panY = 7 \<rparr>
           [ANNOTATION_POINT ''p'' LABEL_BOAT 1 2] []) TOOL_SELECT None)
        (Some (Some (exampleFile 1 0 1)))
     = Some (exampleApp (exampleProject unitViewport [] []) TOOL_SELECT None)
   \<and> (\<forall>j'. decideLoad None \<noteq> SetProject j')
   \<and> handleProjectFileInput
        (exampleApp (exampleProject \<lparr> zoom = 2, panX = 5, panY = 7 \<rparr>
           [ANNOTATION_POINT ''p'' LABEL_BOAT 1 2] []) TOOL_SELECT None)
        (Some None)
     = Some (exampleApp (exampleProject \<lparr> zoom = 2, panX = 5, panY = 7 \<rparr>
           [ANNOTATION_POINT ''p'' LABEL_BOAT 1 2] []) TOOL_SELECT None)"
proof -
  let ?S = "exampleApp (exampleProject \<lparr> zoom = 2, panX = 5, panY = 7 \<rparr>
              [ANNOTATION_POINT ''p'' LABEL_BOAT 1 2] []) TOOL_SELECT None"
  have d: "decideLoad (Some (exampleFile 1 0 1)) = SetProject (exampleFile 1 0 1)"
    by (simp add: decideLoad_exampleFile)
  have pj: "projectOfJson (exampleFile 1 0 1) = Some (exampleProject unitViewport [] [])"
    by (simp add: projectOfJson_exampleFile exampleProject_def unitViewport_def)
  have a: "handleProjectFileInput ?S (Some (Some (exampleFile 1 0 1)))
             = Some (exampleApp (exampleProject unitViewport [] []) TOOL_SELECT None)"
    using load_accepts_truthy_version [of "Some (exampleFile 1 0 1)" "exampleFile 1 0 1" _ ?S,
        THEN conjunct2, THEN conjunct2, THEN conjunct2, THEN conjunct2, THEN conjunct2,
        THEN conjunct2, THEN spec, THEN mp, OF conjI [OF d pj], THEN conjunct1]
    by (simp add: exampleApp_def)
  have n: "\<forall>j'. decideLoad None \<noteq> SetProject j'" by (simp add: decideLoad_def)
  have b: "handleProjectFileInput ?S (Some None) = Some ?S"
    using load_accepts_truthy_version [of None _ _ ?S, THEN conjunct2, THEN conjunct2,
        THEN conjunct1, THEN mp, OF n, THEN conjunct1] .
  from d pj a n b show ?thesis by simp
qed

theorem version_zero_rejected:
  "field (exampleFile 0 0 1) ''version'' = Some (JNum 0)
   \<and> Some (JNum 0) \<noteq> Some JNull
   \<and> isArray (field (exampleFile 0 0 1) ''frames'')
   \<and> decideLoad (Some (exampleFile 0 0 1)) = InvalidFormat
   \<and> handleProjectFileInput
        (exampleApp (exampleProject \<lparr> zoom = 2, panX = 5, panY = 7 \<rparr> [] []) TOOL_SELECT None)
        (Some (Some (exampleFile 0 0 1)))
     = Some (exampleApp (exampleProject \<lparr> zoom = 2, panX = 5, panY = 7 \<rparr> [] [])
               TOOL_SELECT None)"
  by (simp add: decideLoad_exampleFile handleProjectFileInput_def applyLoad_def)
     (simp add: exampleFile_def field_def)

section \<open>Reachable states\<close>

lemma kept_updateViewport:
  "keptInvariant (project st) \<Longrightarrow> ZOOM_MIN \<le> z \<Longrightarrow> z \<le> ZOOM_MAX \<Longrightarrow>
   keptInvariant (project (updateViewport now st z px py nxt))"
  by (simp add: updateViewport_def updateProject_fields keptInvariant_def zoomInRange_def
      indexInRange_def)

lemma kept_updateFrameAnnotations:
  "keptInvariant (project st) \<Longrightarrow>
   keptInvariant (project (updateFrameAnnotations now st k anns nxt))"
  by (simp add: updateFrameAnnotations_def updateProject_fields keptInvariant_def
      zoomInRange_def indexInRange_def)

lemma kept_updateGlobalBuoys:
  "keptInvariant (project st) \<Longrightarrow> keptInvariant (project (updateGlobalBuoys now st bs nxt))"
  by (simp add: updateGlobalBuoys_def updateProject_fields keptInvariant_def
      zoomInRange_def indexInRange_def)

lemma kept_updateFrameRotation:
  "keptInvariant (project st) \<Longrightarrow>
   keptInvariant (project (updateFrameRotation now st k r nxt))"
  by (simp add: updateFrameRotation_def updateProject_fields keptInvariant_def
      zoomInRange_def indexInRange_def)

lemma kept_goToFrame:
  "keptInvariant (project st) \<Longrightarrow> keptInvariant (project (goToFrame now st index))"
  by (auto simp: goToFrame_def updateProject_fields keptInvariant_def
      zoomInRange_def indexInRange_def)

lemma kept_deleteAnnotation:
  "keptInvariant (project st) \<Longrightarrow> keptInvariant (project (deleteAnnotation now st))"
  by (auto simp: deleteAnnotation_def kept_updateFrameAnnotations kept_updateGlobalBuoys
      split: option.splits space.splits)

lemma kept_moveAnnotation:
  "keptInvariant (project st) \<Longrightarrow> keptInvariant (project nxt) \<Longrightarrow>
   keptInvariant (project (moveAnnotation now st i dx dy g nxt))"
  by (auto simp: moveAnnotation_def Let_def kept_updateFrameAnnotations kept_updateGlobalBuoys
      split: option.splits)

lemma kept_resizeAnnotation:
  "keptInvariant (project st) \<Longrightarrow> keptInvariant (project nxt) \<Longrightarrow>
   keptInvariant (project (resizeAnnotation now st i dw dh g nxt))"
  by (auto simp: resizeAnnotation_def Let_def kept_updateFrameAnnotations kept_updateGlobalBuoys
      split: option.splits annotation.splits)

lemma kept_setFrames:
  "keptInvariant captured \<Longrightarrow> fs \<noteq> [] \<Longrightarrow>
   keptInvariant (project (setFrames captured st fs))"
  by (simp add: setFrames_def keptInvariant_def zoomInRange_def indexInRange_def)

lemma kept_mouseDown:
  "keptInvariant (project st) \<Longrightarrow> keptInvariant (project (handleCanvasMouseDown st x y))"
  by (simp add: handleCanvasMouseDown_def Let_def split: option.splits)

lemma kept_resizeDrag:
  "keptInvariant (project st) \<Longrightarrow> keptInvariant (project (resizeDrag now st cf hnd h x y))"
  by (simp add: resizeDrag_def Let_def kept_resizeAnnotation kept_moveAnnotation)

lemma kept_mouseMove:
  assumes k: "keptInvariant (project st)"
  shows "keptInvariant (project (handleCanvasMouseMove now st x y))"
proof -
  have z: "ZOOM_MIN \<le> zoom (viewport (project st))" "zoom (viewport (project st)) \<le> ZOOM_MAX"
    using k by (simp_all add: keptInvariant_def zoomInRange_def)
  show ?thesis
    using k z
    by (simp add: handleCanvasMouseMove_def Let_def kept_updateViewport kept_resizeDrag
        kept_moveAnnotation split: option.splits bool.splits)
qed

lemma kept_mouseUp:
  "keptInvariant (project st) \<Longrightarrow>
   keptInvariant (project (handleCanvasMouseUp now st x y newId))"
  by (simp add: handleCanvasMouseUp_def endDrag_def finishDrawing_def addAnnotation_def Let_def
      kept_updateFrameAnnotations kept_updateGlobalBuoys split: option.splits)

lemma kept_wheel:
  "keptInvariant (project st) \<Longrightarrow> keptInvariant (project (handleWheel now st d))"
  by (simp add: handleWheel_def Let_def kept_updateViewport ZOOM_MIN_def ZOOM_MAX_def
      split: option.splits)


lemma kept_keyDown:
  assumes k: "keptInvariant (project st)"
  shows "keptInvariant (project (handleKeyDown now st key sh ct mt))"
proof (cases "currentFrame (project st)")
  case None
  then show ?thesis using k by (simp add: handleKeyDown_def)
next
  case (Some cf)
  have z: "ZOOM_MIN \<le> zoom (viewport (project st))" "zoom (viewport (project st)) \<le> ZOOM_MAX"
    using k by (simp_all add: keptInvariant_def zoomInRange_def)
  have zi: "ZOOM_MIN \<le> min ZOOM_MAX (zoom (viewport (project st)) * 1.2)"
           "min ZOOM_MAX (zoom (viewport (project st)) * 1.2) \<le> ZOOM_MAX"
    using z by (simp_all add: ZOOM_MIN_def ZOOM_MAX_def)
  have zo: "ZOOM_MIN \<le> max ZOOM_MIN (zoom (viewport (project st)) / 1.2)"
           "max ZOOM_MIN (zoom (viewport (project st)) / 1.2) \<le> ZOOM_MAX"
    using z by (simp_all add: ZOOM_MIN_def ZOOM_MAX_def)
  show ?thesis
    using k z zi zo
    by (simp add: handleKeyDown_def Some Let_def triggerSave_fields kept_updateViewport
        kept_goToFrame kept_updateFrameRotation kept_deleteAnnotation
        del: min_less_iff_conj max_less_iff_conj)
qed

lemma kept_zoomSlider:
  assumes k: "keptInvariant (project st)" and v: "ln ZOOM_MIN \<le> v" "v \<le> ln ZOOM_MAX"
  shows "keptInvariant (project (zoomSliderChange now st v))"
proof -
  have "exp (ln ZOOM_MIN) \<le> exp v" "exp v \<le> exp (ln ZOOM_MAX)" using v by simp_all
  then have "ZOOM_MIN \<le> exp v" "exp v \<le> ZOOM_MAX" by (simp_all add: ZOOM_MIN_def ZOOM_MAX_def)
  then show ?thesis using k by (simp add: zoomSliderChange_def kept_updateViewport)
qed

lemma kept_reset:
  "keptInvariant (project st) \<Longrightarrow> keptInvariant (project (resetViewport now st))"
  by (simp add: resetViewport_def kept_updateViewport ZOOM_MIN_def ZOOM_MAX_def)

lemma kept_imports:
  assumes k: "keptInvariant (project st)" and c: "keptInvariant captured"
  shows "keptInvariant (project (handleFileInputChange captured st file))"
    and "keptInvariant (project (handleOpenFile captured st opened))"
    and "keptInvariant (project (handleFolderInputChange captured st files))"
    and "keptInvariant (project (handleOpenFolder captured st listing))"
  using k c
  by (auto simp: handleFileInputChange_def handleOpenFile_def handleFolderInputChange_def
      handleOpenFolder_def Let_def kept_setFrames split: option.splits picked.splits)

lemma kept_applyLoad:
  assumes k: "keptInvariant (project st)" and c: "checkedLoad parsed"
  shows "\<exists>st'. applyLoad st (decideLoad parsed) = Some st' \<and> keptInvariant (project st')"
  using k c
  by (auto simp: checkedLoad_def applyLoad_def split: load_decision.splits option.splits)

lemma kept_runTimers:
  "keptInvariant (project (runTimers now st)) = keptInvariant (project st)"
  by (simp add: runTimers_def)

lemma kept_closureProject:
  assumes k: "keptInvariant (project st)" and h: "list_all keptInvariant earlier"
  shows "keptInvariant (closureProject earlier st age)"
proof -
  from k h have "list_all keptInvariant (project st # earlier)" by simp
  moreover have "min age (length earlier) < length (project st # earlier)" by simp
  ultimately show ?thesis
    unfolding closureProject_def list_all_length by blast
qed

lemma kept_handleEvent:
  assumes k: "keptInvariant (project st)" and h: "list_all keptInvariant earlier"
    and a: "admissible ev"
  shows "\<exists>st'. handleEvent earlier now ev st = Some st' \<and> keptInvariant (project st')"
proof (cases ev)
  case (ProjectFileInput age chosen)
  show ?thesis
  proof (cases chosen)
    case None
    with k ProjectFileInput show ?thesis
      by (simp add: handleEvent_def handleProjectFileInput_def)
  next
    case (Some parsed)
    with a ProjectFileInput have "checkedLoad parsed" by simp
    from kept_applyLoad [OF k this] k show ?thesis
      by (auto simp: handleEvent_def ProjectFileInput Some handleProjectFileInput_def)
  qed
next
  case (LoadProject age outcome)
  show ?thesis
  proof (cases outcome)
    case (Picked parsed)
    with a LoadProject have "checkedLoad parsed" by simp
    from kept_applyLoad [OF k this] k show ?thesis
      by (auto simp: handleEvent_def LoadProject Picked handleLoadProject_def)
  qed (use k LoadProject in \<open>simp_all add: handleEvent_def handleLoadProject_def\<close>)
next
  case (ZoomSlider v)
  with a k show ?thesis by (simp add: handleEvent_def kept_zoomSlider)
qed (use k kept_closureProject [OF k h] in
      \<open>simp_all add: handleEvent_def kept_mouseDown kept_mouseMove kept_mouseUp
      handleCanvasMouseLeave_def kept_wheel kept_keyDown kept_reset kept_goToFrame
      kept_imports\<close>)

lemma kept_runFrom:
  assumes "keptInvariant (project st)" and "list_all keptInvariant earlier"
    and "list_all admissible (map snd evs)"
  shows "\<exists>st'. runFrom earlier evs st = Some st' \<and> keptInvariant (project st')"
  using assms
proof (induction evs arbitrary: st earlier)
  case Nil
  then show ?case by simp
next
  case (Cons tev evs)
  obtain now ev where tev: "tev = (now, ev)" by (cases tev)
  from Cons.prems tev have a: "admissible ev" and as: "list_all admissible (map snd evs)"
    by simp_all
  have k0: "keptInvariant (project (runTimers now st))"
    using Cons.prems(1) by (simp add: kept_runTimers)
  from kept_handleEvent [OF k0 Cons.prems(2) a, of now]
  obtain st1 where s1: "handleEvent earlier now ev (runTimers now st) = Some st1"
    and k1: "keptInvariant (project st1)" by blast
  from k0 Cons.prems(2)
  have h1: "list_all keptInvariant (project (runTimers now st) # earlier)" by simp
  from Cons.IH [OF k1 h1 as] show ?case by (simp add: tev s1)
qed

lemma kept_run:
  assumes "keptInvariant (project st)" and "list_all admissible (map snd evs)"
  shows "\<exists>st'. run evs st = Some st' \<and> keptInvariant (project st')"
  using kept_runFrom [of st "[]" evs] assms by (simp add: run_def)

lemma kept_initial: "keptInvariant (project (initialApp isoNow))"
  by (simp add: keptInvariant_def zoomInRange_def initialApp_def createDefaultProject_def
      ZOOM_MIN_def ZOOM_MAX_def)

lemma kept_imp_invariant: "keptInvariant p \<Longrightarrow> projectInvariant p"
  by (simp add: keptInvariant_def projectInvariant_def)


text \<open>
  Claim C7, as amended. From the state at mount, every sequence of events (mouse gestures,
  wheel, keys, the zoom slider with a value between its bounds, Reset, frame navigation,
  image imports, and loads of project files that are rejected or themselves hold a zoom in
  [0.2, 32] and, with frames, a current index inside the frame list) ends in a state whose
  zoom lies in [0.2, 32] and whose current index, when the frame list is not empty, is at
  least 0 and below the number of frames. The loaders themselves test neither value.
\<close>

theorem reachable_invariant:
  assumes "list_all admissible (map snd evs)"
  shows "\<exists>st. run evs (initialApp isoNow) = Some st
              \<and> projectInvariant (project st)
              \<and> 2 / 10 \<le> zoom (viewport (project st)) \<and> zoom (viewport (project st)) \<le> 32
              \<and> (frames (project st) \<noteq> [] \<longrightarrow>
                    0 \<le> currentIndex (project st)
                    \<and> currentIndex (project st) < int (length (frames (project st))))"
proof -
  from kept_run [OF kept_initial assms]
  obtain st where r: "run evs (initialApp isoNow) = Some st" and k: "keptInvariant (project st)"
    by blast
  from k have "projectInvariant (project st)" by (rule kept_imp_invariant)
  with r k show ?thesis
    by (auto simp: keptInvariant_def zoomInRange_def indexInRange_def ZOOM_MIN_def ZOOM_MAX_def)
qed

theorem reachable_invariant_witness:
  "list_all admissible (map snd
      [(0, FileInput 0 (Some (ImageFile ''f1.png''
              (Some \<lparr> fd_name = ''f1.png'', fd_url = ''data:1'', fd_width = 200, fd_height = 100 \<rparr>)))),
       (10, Wheel (- 1)),
       (20, ZoomSlider 0),
       (30, KeyDown ''+'' False False False),
       (40, GoToFrame 3),
       (50, ProjectFileInput 0 (Some (Some (exampleFile 1 0 2))))])
   \<and> map_option project (run
      [(0, FileInput 0 (Some (ImageFile ''f1.png''
              (Some \<lparr> fd_name = ''f1.png'', fd_url = ''data:1'', fd_width = 200, fd_height = 100 \<rparr>)))),
       (10, Wheel (- 1)),
       (20, ZoomSlider 0),
       (30, KeyDown ''+'' False False False),
       (40, GoToFrame 3)]
      (initialApp ''2024-10-17T12:00:00Z''))
     = Some (exampleProject \<lparr> zoom = 12 / 10, panX = - 10, panY = - 5 \<rparr> [] [])
   \<and> map_option project (run
      [(0, FileInput 0 (Some (ImageFile ''f1.png''
              (Some \<lparr> fd_name = ''f1.png'', fd_url = ''data:1'', fd_width = 200, fd_height = 100 \<rparr>)))),
       (10, Wheel (- 1)),
       (20, ZoomSlider 0),
       (30, KeyDown ''+'' False False False),
       (40, GoToFrame 3),
       (50, ProjectFileInput 0 (Some (Some (exampleFile 1 0 2))))]
      (initialApp ''2024-10-17T12:00:00Z''))
     = Some (exampleProject \<lparr> zoom = 2, panX = 0, panY = 0 \<rparr> [] [])
   \<and> projectInvariant (exampleProject \<lparr> zoom = 2, panX = 0, panY = 0 \<rparr> [] [])"
proof -
  let ?img = "ImageFile ''f1.png''
     (Some \<lparr> fd_name = ''f1.png'', fd_url = ''data:1'', fd_width = 200, fd_height = 100 \<rparr>)"
  let ?evs = "[(0::nat, FileInput 0 (Some ?img)), (10, Wheel (- 1)), (20, ZoomSlider 0),
       (30, KeyDown ''+'' False False False), (40, GoToFrame 3)]"
  let ?evs2 = "?evs @ [(50, ProjectFileInput 0 (Some (Some (exampleFile 1 0 2))))]"
  let ?st = "initialApp ''2024-10-17T12:00:00Z''"
  have cl: "checkedLoad (Some (exampleFile 1 0 2))"
    by (simp add: checkedLoad_def decideLoad_exampleFile projectOfJson_exampleFile
        keptInvariant_def zoomInRange_def indexInRange_def exampleProject_def
        ZOOM_MIN_def ZOOM_MAX_def)
  have adm: "list_all admissible (map snd ?evs2)"
    using cl by (simp add: ZOOM_MIN_def ZOOM_MAX_def)
  have s1: "handleEvent [] 0 (FileInput 0 (Some ?img)) (runTimers 0 ?st)
      = Some (?st\<lparr> project := exampleProject unitViewport [] [] \<rparr>)"
    by (simp add: handleEvent_def handleFileInputChange_def setFrames_def runTimers_def
        closureProject_def
        initialApp_def createDefaultProject_def newFrame_def exampleProject_def
        exampleFrame_def unitViewport_def)
  have a: "map_option project (run ?evs ?st)
      = Some (exampleProject \<lparr> zoom = 12 / 10, panX = - 10, panY = - 5 \<rparr> [] [])"
    by (simp add: run_def s1)
      (simp add: handleEvent_def closureProject_def handleWheel_def handleKeyDown_def
        zoomSliderChange_def goToFrame_def Let_def updateViewport_def updateProject_fields runTimers_fields
        imageToScreen_def newTransformer_def exampleProject_def exampleFrame_def
        unitViewport_def ZOOM_MIN_def ZOOM_MAX_def KEY_PAN_STEP_def currentFrame_def
        initialApp_def)
  from reachable_invariant [OF adm, of "''2024-10-17T12:00:00Z''"]
  obtain st where r: "run ?evs2 ?st = Some st" and pi: "projectInvariant (project st)"
    by blast
  have b: "map_option project (run ?evs2 ?st)
      = Some (exampleProject \<lparr> zoom = 2, panX = 0, panY = 0 \<rparr> [] [])"
    by (simp add: run_def s1)
      (simp add: handleEvent_def closureProject_def handleWheel_def handleKeyDown_def
        zoomSliderChange_def goToFrame_def Let_def updateViewport_def updateProject_fields runTimers_fields
        imageToScreen_def newTransformer_def exampleProject_def exampleFrame_def
        unitViewport_def ZOOM_MIN_def ZOOM_MAX_def KEY_PAN_STEP_def currentFrame_def
        initialApp_def handleProjectFileInput_def applyLoad_def decideLoad_exampleFile
        projectOfJson_exampleFile)
  from r b have "project st = exampleProject \<lparr> zoom = 2, panX = 0, panY = 0 \<rparr> [] []"
    by simp
  with pi have c: "projectInvariant (exampleProject \<lparr> zoom = 2, panX = 0, panY = 0 \<rparr> [] [])"
    by simp
  from adm a b c show ?thesis by simp
qed

theorem unchecked_load_breaks_invariant:
  "map_option project (run
      [(0, FileInput 0 (Some (ImageFile ''f1.png''
              (Some \<lparr> fd_name = ''f1.png'', fd_url = ''data:1'', fd_width = 200, fd_height = 100 \<rparr>)))),
       (10, ProjectFileInput 0 (Some (Some (exampleFile 1 5 100))))]
      (initialApp ''2024-10-17T12:00:00Z''))
     = Some ((exampleProject \<lparr> zoom = 100, panX = 0, panY = 0 \<rparr> [] [])\<lparr> currentIndex := 5 \<rparr>)
   \<and> frames ((exampleProject \<lparr> zoom = 100, panX = 0, panY = 0 \<rparr> [] [])\<lparr> currentIndex := 5 \<rparr>)
       \<noteq> []
   \<and> \<not> projectInvariant
         ((exampleProject \<lparr> zoom = 100, panX = 0, panY = 0 \<rparr> [] [])\<lparr> currentIndex := 5 \<rparr>)"
proof -
  let ?img = "ImageFile ''f1.png''
     (Some \<lparr> fd_name = ''f1.png'', fd_url = ''data:1'', fd_width = 200, fd_height = 100 \<rparr>)"
  let ?st = "initialApp ''2024-10-17T12:00:00Z''"
  have s1: "handleEvent [] 0 (FileInput 0 (Some ?img)) (runTimers 0 ?st)
      = Some (?st\<lparr> project := exampleProject unitViewport [] [] \<rparr>)"
    by (simp add: handleEvent_def handleFileInputChange_def setFrames_def runTimers_def
        closureProject_def
        initialApp_def createDefaultProject_def newFrame_def exampleProject_def
        exampleFrame_def unitViewport_def)
  have a: "map_option project (run [(0, FileInput 0 (Some ?img)),
               (10, ProjectFileInput 0 (Some (Some (exampleFile 1 5 100))))] ?st)
     = Some ((exampleProject \<lparr> zoom = 100, panX = 0, panY = 0 \<rparr> [] [])\<lparr> currentIndex := 5 \<rparr>)"
    by (simp add: run_def s1)
      (simp add: handleEvent_def closureProject_def runTimers_fields
        handleProjectFileInput_def applyLoad_def decideLoad_exampleFile
        projectOfJson_exampleFile, simp add: exampleProject_def)
  have b: "\<not> projectInvariant
         ((exampleProject \<lparr> zoom = 100, panX = 0, panY = 0 \<rparr> [] [])\<lparr> currentIndex := 5 \<rparr>)"
    by (simp add: projectInvariant_def indexInRange_def exampleProject_def)
  from a b show ?thesis by (simp add: exampleProject_def)
qed

section \<open>Wheel zoom\<close>

lemma rotateBy_origin: "rotateBy rad (0, 0) = (0, 0)"
  by (simp add: rotateBy_def)

text \<open>The image's centre on the screen: the rotation about the centre leaves it in place.\<close>

lemma imageToScreen_center:
  "imageToScreen (newTransformer w h z px py rot r) (w / 2) (h / 2)
     = (w / 2 * z + px, h / 2 * z + py)"
  by (simp add: imageToScreen_def newTransformer_def Let_def rotateBy_origin)

lemma handleWheel_project:
  assumes "currentFrame (project st) = Some cf"
  shows "project (handleWheel now st deltaY) =
     (let vp = viewport (project st);
          newZoom = max ZOOM_MIN (min ZOOM_MAX (zoom vp * (if deltaY > 0 then 0.9 else 1.1)))
      in (project st)\<lparr> viewport :=
           \<lparr> zoom = newZoom,
             panX = panX vp + (width cf / 2 * zoom vp + panX vp - width cf / 2 * newZoom),
             panY = panY vp + (height cf / 2 * zoom vp + panY vp - height cf / 2 * newZoom) \<rparr> \<rparr>)"
  using assms
  by (simp add: handleWheel_def Let_def imageToScreen_center updateViewport_def
      updateProject_fields)

text \<open>
  Claim C2, as amended. A wheel event on a loaded frame multiplies the zoom by 1.1 when
  \<^verbatim>\<open>deltaY\<close> is not positive (zoom in) and by 0.9 when it is positive (zoom out), and
  clamps the product to [0.2, 32]; the frames, the current index and the global buoys stay.
\<close>

theorem wheel_zoom_factor:
  assumes "currentFrame (project st) = Some cf"
  shows "zoom (viewport (project (handleWheel now st deltaY)))
           = max (2 / 10) (min 32 (zoom (viewport (project st))
                                    * (if deltaY > 0 then 9 / 10 else 11 / 10)))
         \<and> 2 / 10 \<le> zoom (viewport (project (handleWheel now st deltaY)))
         \<and> zoom (viewport (project (handleWheel now st deltaY))) \<le> 32
         \<and> frames (project (handleWheel now st deltaY)) = frames (project st)
         \<and> currentIndex (project (handleWheel now st deltaY)) = currentIndex (project st)
         \<and> globalBuoys (project (handleWheel now st deltaY)) = globalBuoys (project st)"
  unfolding handleWheel_project [OF assms]
  by (simp add: Let_def ZOOM_MIN_def ZOOM_MAX_def)

theorem wheel_zoom_factor_witness:
  "currentFrame (project (exampleApp (exampleProject unitViewport [] []) TOOL_SELECT None))
     = Some (exampleFrame [])
   \<and> zoom (viewport (project (handleWheel 0
        (exampleApp (exampleProject unitViewport [] []) TOOL_SELECT None) (- 1)))) = 11 / 10
   \<and> zoom (viewport (project (handleWheel 0
        (exampleApp (exampleProject unitViewport [] []) TOOL_SELECT None) 1))) = 9 / 10
   \<and> currentFrame (project (exampleApp (exampleProject \<lparr> zoom = 30, panX = 0, panY = 0 \<rparr> [] [])
        TOOL_SELECT None)) = Some (exampleFrame [])
   \<and> zoom (viewport (project (handleWheel 0
        (exampleApp (exampleProject \<lparr> zoom = 30, panX = 0, panY = 0 \<rparr> [] []) TOOL_SELECT None)
        (- 1)))) = 32"
proof -
  let ?S = "exampleApp (exampleProject unitViewport [] []) TOOL_SELECT None"
  let ?S30 = "exampleApp (exampleProject \<lparr> zoom = 30, panX = 0, panY = 0 \<rparr> [] []) TOOL_SELECT None"
  have cf: "currentFrame (project ?S) = Some (exampleFrame [])" by (simp add: exampleApp_def)
  have cf30: "currentFrame (project ?S30) = Some (exampleFrame [])" by (simp add: exampleApp_def)
  have z: "zoom (viewport (project ?S)) = 1"
    by (simp add: exampleApp_def exampleProject_def unitViewport_def)
  have z30: "zoom (viewport (project ?S30)) = 30"
    by (simp add: exampleApp_def exampleProject_def)
  have a: "zoom (viewport (project (handleWheel 0 ?S (- 1)))) = 11 / 10"
    using wheel_zoom_factor [OF cf, of 0 "- 1", THEN conjunct1] by (simp add: z)
  have b: "zoom (viewport (project (handleWheel 0 ?S 1))) = 9 / 10"
    using wheel_zoom_factor [OF cf, of 0 1, THEN conjunct1] by (simp add: z)
  have c: "zoom (viewport (project (handleWheel 0 ?S30 (- 1)))) = 32"
    using wheel_zoom_factor [OF cf30, of 0 "- 1", THEN conjunct1] by (simp add: z30)
  from cf a b cf30 c show ?thesis by simp
qed

theorem wheel_zoom_out_and_center:
  "viewport (project (handleWheel 0
      (exampleApp (exampleProject \<lparr> zoom = 1, panX = 100, panY = 50 \<rparr> [] []) TOOL_SELECT None) 1))
     = \<lparr> zoom = 9 / 10, panX = 210, panY = 105 \<rparr>
   \<and> (9 / 10 :: real) \<noteq> max ZOOM_MIN (min ZOOM_MAX (1 * (1 / 1.1)))
   \<and> imageToScreen (newTransformer 200 100 1 100 50 0 True) (200 / 2) (100 / 2) = (200, 100)
   \<and> imageToScreen (newTransformer 200 100 (9 / 10) 210 105 0 True) (200 / 2) (100 / 2)
       = (300, 150)"
proof -
  let ?S = "exampleApp (exampleProject \<lparr> zoom = 1, panX = 100, panY = 50 \<rparr> [] []) TOOL_SELECT None"
  have cf: "currentFrame (project ?S) = Some (exampleFrame [])" by (simp add: exampleApp_def)
  have a: "viewport (project (handleWheel 0 ?S 1)) = \<lparr> zoom = 9 / 10, panX = 210, panY = 105 \<rparr>"
    unfolding handleWheel_project [OF cf]
    by (simp add: Let_def ZOOM_MIN_def ZOOM_MAX_def exampleApp_def exampleProject_def
        exampleFrame_def)
  have b: "(9 / 10 :: real) \<noteq> max ZOOM_MIN (min ZOOM_MAX (1 * (1 / 1.1)))"
    by (simp add: ZOOM_MIN_def ZOOM_MAX_def)
  have c: "imageToScreen (newTransformer 200 100 1 100 50 0 True) (200 / 2) (100 / 2) = (200, 100)"
    by (simp add: imageToScreen_def newTransformer_def Let_def)
  have d: "imageToScreen (newTransformer 200 100 (9 / 10) 210 105 0 True) (200 / 2) (100 / 2)
       = (300, 150)"
    by (simp add: imageToScreen_def newTransformer_def Let_def)
  from a b c d show ?thesis by (intro conjI)
qed

section \<open>Dragging a resize handle\<close>

text \<open>
  Claim C6 at a concrete drag. The select tool is pressed on the corner (10, 10) of the box
  (10, 10, 50, 50): the box is hit and the handle under the pointer is \<^verbatim>\<open>nw\<close>. The
  pointer then moves to (20, 20). The claim has the origin follow to (20, 20) with a 40 by
  40 box; the handler leaves the origin at (10, 10) and only shrinks the box, because the
  project that \<^verbatim>\<open>resizeAnnotation\<close> sets is computed from the same render as the one
  \<^verbatim>\<open>moveAnnotation\<close> set just before and replaces it.
\<close>

theorem nw_drag_keeps_origin:
  "map_option dragStart (run [(0, MouseDown 10 10)]
      (exampleApp (exampleProject unitViewport [ANNOTATION_BBOX ''a'' LABEL_BOAT 10 10 50 50] [])
         TOOL_SELECT None))
     = Some (Some \<lparr> ds_x = 10, ds_y = 10, ds_handle = Some H_nw,
                    ds_hit = Some \<lparr> hit_type = Frame, hit_id = ''a'', hit_index = 0 \<rparr> \<rparr>)
   \<and> map_option (\<lambda>s. annotationsOf (project s) False)
        (run [(0, MouseDown 10 10), (10, MouseMove 20 20)]
           (exampleApp (exampleProject unitViewport [ANNOTATION_BBOX ''a'' LABEL_BOAT 10 10 50 50] [])
              TOOL_SELECT None))
     = Some [ANNOTATION_BBOX ''a'' LABEL_BOAT 10 10 40 40]"
proof -
  let ?P = "exampleProject unitViewport [ANNOTATION_BBOX ''a'' LABEL_BOAT 10 10 50 50] []"
  let ?S = "exampleApp ?P TOOL_SELECT None"
  let ?D = "\<lparr> ds_x = 10, ds_y = 10, ds_handle = Some H_nw,
              ds_hit = Some \<lparr> hit_type = Frame, hit_id = ''a'', hit_index = 0 \<rparr> \<rparr>"
  have cfP: "currentFrame ?P = Some (exampleFrame [ANNOTATION_BBOX ''a'' LABEL_BOAT 10 10 50 50])"
    by simp
  have hitP: "getAnnotationAtPoint ?P 10 10
      = Some \<lparr> hit_type = Frame, hit_id = ''a'', hit_index = 0 \<rparr>"
    by (simp add: getAnnotationAtPoint_def Let_def)
       (simp add: exampleProject_def exampleFrame_def unitViewport_def newTransformer_def
          screenToImage_def Let_def)
  have hnd: "getHandleAtPoint ?P (exampleFrame [ANNOTATION_BBOX ''a'' LABEL_BOAT 10 10 50 50])
        10 10 (ANNOTATION_BBOX ''a'' LABEL_BOAT 10 10 50 50) False = Some H_nw"
    by (simp add: getHandleAtPoint_def Let_def exampleProject_def exampleFrame_def
        unitViewport_def newTransformer_def imageToScreen_def hypot_def)
  have down: "handleCanvasMouseDown ?S 10 10
      = ?S\<lparr> selection := Some \<lparr> hit_type = Frame, hit_id = ''a'', hit_index = 0 \<rparr>,
             isDragging := True, dragStart := Some ?D \<rparr>"
    by (simp add: handleCanvasMouseDown_def exampleApp_def hitP Let_def exampleFrame_def
        hnd [unfolded exampleFrame_def])
  have idle0: "runTimers 0 ?S = ?S" by (simp add: runTimers_def exampleApp_def)
  have r1: "run [(0, MouseDown 10 10)] ?S = Some (handleCanvasMouseDown ?S 10 10)"
    by (simp add: run_def handleEvent_def idle0)
  have a: "map_option dragStart (run [(0, MouseDown 10 10)] ?S) = Some (Some ?D)"
    unfolding r1 down by simp
  define S1 where "S1 = handleCanvasMouseDown ?S 10 10"
  have S1: "project S1 = ?P" "tool S1 = TOOL_SELECT" "isDragging S1" "dragStart S1 = Some ?D"
    "timers S1 = []"
    unfolding S1_def down by (simp_all add: exampleApp_def)
  have idle: "runTimers 10 S1 = S1" by (simp add: runTimers_def S1)
  have anns: "annotationsOf ?P False = [ANNOTATION_BBOX ''a'' LABEL_BOAT 10 10 50 50]"
    by (simp add: annotationsOf_def exampleFrame_def)
  have mv: "annotationsOf (project (handleCanvasMouseMove 10 S1 20 20)) False
      = [ANNOTATION_BBOX ''a'' LABEL_BOAT 10 10 40 40]"
    by (simp add: handleCanvasMouseMove_def S1 Let_def resizeDrag_def)
       (simp add: exampleFrame_def exampleProject_def unitViewport_def newTransformer_def
          screenToImage_def Let_def resizeAnnotation_def moveAnnotation_def S1 anns
          updateFrameAnnotations_def updateProject_fields annotationsOf_def currentFrame_def
          MIN_BBOX_SIDE_def)
  have r2: "run [(0, MouseDown 10 10), (10, MouseMove 20 20)] ?S
      = Some (handleCanvasMouseMove 10 S1 20 20)"
    by (simp add: run_def handleEvent_def idle0 S1_def [symmetric] idle)
  have b: "map_option (\<lambda>s. annotationsOf (project s) False)
        (run [(0, MouseDown 10 10), (10, MouseMove 20 20)] ?S)
      = Some [ANNOTATION_BBOX ''a'' LABEL_BOAT 10 10 40 40]"
    unfolding r2 using mv by simp
  from a b show ?thesis by (intro conjI)
qed


text \<open>
  The resize branch of a select-tool drag in general, for a drag that started on the handle
  \<open>hnd\<close> of the hit \<open>h\<close>, the box of the hit being the first annotation of its list with
  its identifier. With \<open>(imgX, imgY)\<close> the image-space point under the pointer: a handle
  other than \<^verbatim>\<open>se\<close> and \<^verbatim>\<open>nw\<close> leaves the whole state as it is; \<^verbatim>\<open>se\<close> adds
  \<open>imgX - (x + w)\<close> to the width and \<open>imgY - (y + h)\<close> to the height, each result raised to
  5 when smaller; \<^verbatim>\<open>nw\<close> subtracts \<open>imgX - x\<close> and \<open>imgY - y\<close> from the width and the
  height in the same way and leaves the origin where it was.
\<close>

theorem select_drag_on_handle:
  assumes cf: "currentFrame (project st) = Some cf"
    and tl: "tool st = TOOL_SELECT"
    and dr: "isDragging st"
    and ds: "dragStart st = Some ds"
    and hn: "ds_handle ds = Some hnd"
    and hi: "ds_hit ds = Some h"
    and z: "zoom (viewport (project st)) \<noteq> 0"
  shows
    "(let vp = viewport (project st);
          g = (hit_type h = Global);
          anns = annotationsOf (project st) g;
          k = hit_index h;
          img = screenToImage (newTransformer (width cf) (height cf) (zoom vp) (panX vp) (panY vp)
                  (if g then 0 else rotationDeg cf) (\<not> g)) screenX screenY;
          st' = handleCanvasMouseMove now st screenX screenY
      in (hnd \<noteq> H_se \<and> hnd \<noteq> H_nw \<longrightarrow> st' = st)
       \<and> (\<forall>i l x y w b.
             k < length anns \<and> anns ! k = ANNOTATION_BBOX i l x y w b
             \<and> findIndex (\<lambda>a. ann_id a = i) anns = Some k
             \<longrightarrow> (hnd = H_se \<longrightarrow>
                    annotationsOf (project st') g
                      = anns[k := ANNOTATION_BBOX i l x y (max 5 (w + (fst img - (x + w))))
                                                      (max 5 (b + (snd img - (y + b))))])
               \<and> (hnd = H_nw \<longrightarrow>
                    annotationsOf (project st') g
                      = anns[k := ANNOTATION_BBOX i l x y (max 5 (w - (fst img - x)))
                                                      (max 5 (b - (snd img - y)))])))"
proof -
  define g where "g = (hit_type h = Global)"
  define anns where "anns = annotationsOf (project st) g"
  define img where "img = screenToImage (newTransformer (width cf) (height cf)
      (zoom (viewport (project st))) (panX (viewport (project st))) (panY (viewport (project st)))
      (if g then 0 else rotationDeg cf) (\<not> g)) screenX screenY"
  have mm: "handleCanvasMouseMove now st screenX screenY = resizeDrag now st cf hnd h screenX screenY"
    by (simp add: handleCanvasMouseMove_def cf tl dr ds hn hi Let_def)
  have an: "(if g then globalBuoys (project st) else annotations cf) = anns"
    by (simp add: anns_def annotationsOf_def cf)
  have other: "resizeDrag now st cf hnd h screenX screenY = st" if "hnd \<noteq> H_se" "hnd \<noteq> H_nw"
    using that by (simp add: resizeDrag_def Let_def)
  have se: "annotationsOf (project (resizeDrag now st cf H_se h screenX screenY)) g
      = anns[hit_index h := ANNOTATION_BBOX i l x y (max 5 (w + (fst img - (x + w))))
                                                      (max 5 (b + (snd img - (y + b))))]"
    if "hit_index h < length anns" "anns ! hit_index h = ANNOTATION_BBOX i l x y w b"
       "findIndex (\<lambda>a. ann_id a = i) anns = Some (hit_index h)" for i l x y w b
  proof -
    have "resizeDrag now st cf H_se h screenX screenY
        = resizeAnnotation now st i (fst img - (x + w)) (snd img - (y + b)) g st"
      using that by (simp add: resizeDrag_def Let_def g_def [symmetric] an img_def [symmetric])
    then show ?thesis
      using resizeAnnotation_box [of i st g "hit_index h" i l x y w b now _ _ st] that
      by (simp add: anns_def)
  qed
  have nw: "annotationsOf (project (resizeDrag now st cf H_nw h screenX screenY)) g
      = anns[hit_index h := ANNOTATION_BBOX i l x y (max 5 (w - (fst img - x)))
                                                      (max 5 (b - (snd img - y)))]"
    if "hit_index h < length anns" "anns ! hit_index h = ANNOTATION_BBOX i l x y w b"
       "findIndex (\<lambda>a. ann_id a = i) anns = Some (hit_index h)" for i l x y w b
  proof -
    have eq: "resizeDrag now st cf H_nw h screenX screenY
        = resizeAnnotation now st i (- (fst img - x)) (- (snd img - y)) g
            (moveAnnotation now st i (fst img - x) (snd img - y) g st)"
      using that by (simp add: resizeDrag_def Let_def g_def [symmetric] an img_def [symmetric])
    have R: "annotationsOf (project (resizeAnnotation now st i (- (fst img - x))
                 (- (snd img - y)) g nxt)) g
        = (annotationsOf (project st) g)[hit_index h :=
             ANNOTATION_BBOX i l x y (max 5 (w + - (fst img - x))) (max 5 (b + - (snd img - y)))]"
      for nxt
      using that unfolding anns_def by (intro resizeAnnotation_box)
    have e: "w + - (fst img - x) = w - (fst img - x)" "b + - (snd img - y) = b - (snd img - y)"
      by simp_all
    show ?thesis unfolding eq R e anns_def ..
  qed
  show ?thesis
    unfolding Let_def mm g_def [symmetric] anns_def [symmetric] img_def [symmetric]
    using other se nw by blast
qed


theorem select_drag_on_handle_witness:
  "currentFrame (project (exampleApp
       (exampleProject unitViewport [ANNOTATION_BBOX ''a'' LABEL_BOAT 10 10 50 50] []) TOOL_SELECT
       (Some \<lparr> ds_x = 60, ds_y = 60, ds_handle = Some H_se,
               ds_hit = Some \<lparr> hit_type = Frame, hit_id = ''a'', hit_index = 0 \<rparr> \<rparr>)))
     = Some (exampleFrame [ANNOTATION_BBOX ''a'' LABEL_BOAT 10 10 50 50])
   \<and> zoom (viewport (project (exampleApp
       (exampleProject unitViewport [ANNOTATION_BBOX ''a'' LABEL_BOAT 10 10 50 50] []) TOOL_SELECT
       (Some \<lparr> ds_x = 60, ds_y = 60, ds_handle = Some H_se,
               ds_hit = Some \<lparr> hit_type = Frame, hit_id = ''a'', hit_index = 0 \<rparr> \<rparr>)))) \<noteq> 0
   \<and> annotationsOf (project (handleCanvasMouseMove 0 (exampleApp
       (exampleProject unitViewport [ANNOTATION_BBOX ''a'' LABEL_BOAT 10 10 50 50] []) TOOL_SELECT
       (Some \<lparr> ds_x = 60, ds_y = 60, ds_handle = Some H_se,
               ds_hit = Some \<lparr> hit_type = Frame, hit_id = ''a'', hit_index = 0 \<rparr> \<rparr>)) 80 90)) False
     = [ANNOTATION_BBOX ''a'' LABEL_BOAT 10 10 70 80]
   \<and> handleCanvasMouseMove 0 (exampleApp
       (exampleProject unitViewport [ANNOTATION_BBOX ''a'' LABEL_BOAT 10 10 50 50] []) TOOL_SELECT
       (Some \<lparr> ds_x = 35, ds_y = 10, ds_handle = Some H_n,
               ds_hit = Some \<lparr> hit_type = Frame, hit_id = ''a'', hit_index = 0 \<rparr> \<rparr>)) 35 30
     = exampleApp
       (exampleProject unitViewport [ANNOTATION_BBOX ''a'' LABEL_BOAT 10 10 50 50] []) TOOL_SELECT
       (Some \<lparr> ds_x = 35, ds_y = 10, ds_handle = Some H_n,
               ds_hit = Some \<lparr> hit_type = Frame, hit_id = ''a'', hit_index = 0 \<rparr> \<rparr>)"
proof -
  let ?P = "exampleProject unitViewport [ANNOTATION_BBOX ''a'' LABEL_BOAT 10 10 50 50] []"
  let ?h = "\<lparr> hit_type = Frame, hit_id = ''a'', hit_index = 0 \<rparr>"
  let ?Dse = "\<lparr> ds_x = 60, ds_y = 60, ds_handle = Some H_se, ds_hit = Some ?h \<rparr>"
  let ?Dn = "\<lparr> ds_x = 35, ds_y = 10, ds_handle = Some H_n, ds_hit = Some ?h \<rparr>"
  let ?S = "exampleApp ?P TOOL_SELECT (Some ?Dse)"
  let ?N = "exampleApp ?P TOOL_SELECT (Some ?Dn)"
  let ?F = "exampleFrame [ANNOTATION_BBOX ''a'' LABEL_BOAT 10 10 50 50]"
  have cf: "currentFrame (project ?S) = Some ?F" by (simp add: exampleApp_def)
  have z: "zoom (viewport (project ?S)) \<noteq> 0"
    by (simp add: exampleApp_def exampleProject_def unitViewport_def)
  have an: "annotationsOf (project ?S) False = [ANNOTATION_BBOX ''a'' LABEL_BOAT 10 10 50 50]"
    by (simp add: annotationsOf_def exampleApp_def exampleFrame_def)
  have pre: "hit_index ?h < length (annotationsOf (project ?S) (hit_type ?h = Global))
      \<and> annotationsOf (project ?S) (hit_type ?h = Global) ! hit_index ?h
          = ANNOTATION_BBOX ''a'' LABEL_BOAT 10 10 50 50
      \<and> findIndex (\<lambda>a. ann_id a = ''a'') (annotationsOf (project ?S) (hit_type ?h = Global))
          = Some (hit_index ?h)"
    by (simp add: an)
  have a: "annotationsOf (project (handleCanvasMouseMove 0 ?S 80 90)) False
      = [ANNOTATION_BBOX ''a'' LABEL_BOAT 10 10 70 80]"
    using select_drag_on_handle [of ?S ?F ?Dse H_se ?h 80 90 0, unfolded Let_def, OF cf _ _ _ _ _ z,
        THEN conjunct2, THEN spec, THEN spec, THEN spec, THEN spec, THEN spec, THEN spec,
        THEN mp, OF _ _ _ _ _ pre, THEN conjunct1, THEN mp, OF _ _ _ _ _ refl]
    by (simp add: an)
       (simp add: exampleApp_def exampleProject_def exampleFrame_def unitViewport_def
          newTransformer_def screenToImage_def)
  have cfN: "currentFrame (project ?N) = Some ?F" by (simp add: exampleApp_def)
  have zN: "zoom (viewport (project ?N)) \<noteq> 0"
    by (simp add: exampleApp_def exampleProject_def unitViewport_def)
  have b: "handleCanvasMouseMove 0 ?N 35 30 = ?N"
    using select_drag_on_handle [of ?N ?F ?Dn H_n ?h 35 30 0, unfolded Let_def, OF cfN _ _ _ _ _ zN,
        THEN conjunct1]
    by (simp add: exampleApp_def)
  from cf z a b show ?thesis by (intro conjI)
qed

section \<open>Rounding to a double\<close>

lemma fl_zero: "fl 0 = 0"
  by (simp add: fl_def)

lemma roundHalfEven_of_int: "roundHalfEven (of_int n) = n"
  by (simp add: roundHalfEven_def)


text \<open>A number with a significand of at most 53 bits is a double: rounding leaves it.\<close>

lemma fl_representable:
  assumes x: "x = of_int m * 2 powr of_int e" and m: "\<bar>m\<bar> < 2 ^ 53"
  shows "fl x = x"
proof (cases "x = 0")
  case True
  then show ?thesis by (simp add: fl_def)
next
  case False
  define k where "k = \<lfloor>log 2 \<bar>x\<bar>\<rfloor>"
  have pos: "0 < \<bar>x\<bar>" using False by simp
  have lo: "2 powr of_int k \<le> \<bar>x\<bar>"
    using floor_log_eq_powr_iff [of "\<bar>x\<bar>" 2 k] pos by (simp add: k_def)
  have "\<bar>x\<bar> = of_int \<bar>m\<bar> * 2 powr of_int e" by (simp add: x abs_mult)
  also have "\<dots> < 2 ^ 53 * 2 powr of_int e"
  proof -
    have "(of_int \<bar>m\<bar> :: real) < of_int (2 ^ 53)" using m by (simp only: of_int_less_iff)
    then show ?thesis by simp
  qed
  also have "\<dots> = 2 powr of_int (e + 53)"
    by (simp add: powr_add powr_numeral)
  finally have "\<bar>x\<bar> < (2::real) powr of_int (e + 53)" .
  with lo have "2 powr of_int k < (2::real) powr of_int (e + 53)" by (rule le_less_trans)
  then have "(of_int k :: real) < of_int (e + 53)" by (simp only: powr_less_cancel_iff)
  then have "k < e + 53" by (simp only: of_int_less_iff)
  then obtain d where d: "e = (k - 52) + int d"
    using zle_iff_zadd [of "k - 52" e] by auto
  have "x / 2 powr of_int (k - 52) = of_int m * 2 powr of_int (int d)"
    by (simp add: x d powr_add)
  also have "\<dots> = of_int (m * 2 ^ d)"
    by (simp add: powr_realpow)
  finally have q: "x / 2 powr of_int (k - 52) = of_int (m * 2 ^ d)" .
  have "fl x = of_int (roundHalfEven (x / 2 powr of_int (k - 52))) * 2 powr of_int (k - 52)"
    using False by (simp add: fl_def Let_def k_def)
  also have "\<dots> = of_int (m * 2 ^ d) * 2 powr of_int (k - 52)"
    unfolding q roundHalfEven_of_int ..
  also have "\<dots> = x"
    using q by (metis nonzero_divide_eq_eq powr_non_neg powr_eq_0_iff zero_neq_numeral)
  finally show ?thesis .
qed

lemma fl_int: "\<bar>n\<bar> < 2 ^ 53 \<Longrightarrow> fl (of_int n) = of_int n"
  using fl_representable [of "of_int n" n 0] by simp

lemma fl_numeral: "numeral n < (2 ^ 53 :: int) \<Longrightarrow> fl (numeral n) = numeral n"
  using fl_int [of "numeral n"] by simp

lemma fl_neg_numeral: "numeral n < (2 ^ 53 :: int) \<Longrightarrow> fl (- numeral n) = - numeral n"
  using fl_int [of "- numeral n"] by simp



section \<open>The round trip of the transform\<close>

lemma rotateBy_inverse: "rotateBy (- r) (rotateBy r p) = p"
proof -
  obtain a b where p: "p = (a, b)" by (cases p)
  have cs: "cos r * cos r + sin r * sin r = 1" by (rule sin_cos_squared_add3)
  have 1: "(a * cos r - b * sin r) * cos r + (a * sin r + b * cos r) * sin r = a"
    using cs by algebra
  have 2: "(a * sin r + b * cos r) * cos r - (a * cos r - b * sin r) * sin r = b"
    using cs by algebra
  show ?thesis
    using 1 2 by (simp add: rotateBy_def Let_def p)
qed

lemma rotateBy_inverse': "rotateBy r (rotateBy (- r) p) = p"
  using rotateBy_inverse [of "- r" p] by simp





text \<open>With a pan of 30 the same steps are exact and the point comes back.\<close>

lemma round_trip_in_doubles_example:
  "imageToScreenD (newTransformer 200 100 2 30 (- 40) 0 False) 12 34 = (54, 28)
   \<and> screenToImageD (newTransformer 200 100 2 30 (- 40) 0 False) 54 28 = (12, 34)"
  by (simp add: imageToScreenD_def screenToImageD_def newTransformer_def Let_def
      dadd_def dsub_def dmul_def ddiv_def fl_numeral fl_neg_numeral fl_zero)

text \<open>
  The round trip of the coordinate transform in exact arithmetic: with a zoom that is not
  0, \<^verbatim>\<open>screenToImage\<close> undoes \<^verbatim>\<open>imageToScreen\<close> and the other way round, whatever
  the image size, the pan, the rotation and the rotation flag.
\<close>

theorem transform_round_trip:
  assumes "t_zoom t \<noteq> 0"
  shows "screenToImage t (fst (imageToScreen t x y)) (snd (imageToScreen t x y)) = (x, y)
         \<and> imageToScreen t (fst (screenToImage t x y)) (snd (screenToImage t x y)) = (x, y)"
proof (cases "rotated t \<and> t_rotationDeg t \<noteq> 0")
  case False
  with assms show ?thesis
    by (auto simp: screenToImage_def imageToScreen_def Let_def)
next
  case True
  define r where "r = t_rotationDeg t * pi / 180"
  have neg: "- t_rotationDeg t * pi / 180 = - r" by (simp add: r_def)
  have a: "screenToImage t (fst (imageToScreen t x y)) (snd (imageToScreen t x y))
      = (let q = rotateBy (- r) (rotateBy r (x - imgW t / 2, y - imgH t / 2))
         in (fst q + imgW t / 2, snd q + imgH t / 2))"
    using True assms
    by (simp add: screenToImage_def imageToScreen_def Let_def neg r_def [symmetric])
  have b: "imageToScreen t (fst (screenToImage t x y)) (snd (screenToImage t x y))
      = (let q = rotateBy r (rotateBy (- r)
                   ((x - t_panX t) / t_zoom t - imgW t / 2, (y - t_panY t) / t_zoom t - imgH t / 2))
         in ((fst q + imgW t / 2) * t_zoom t + t_panX t,
             (snd q + imgH t / 2) * t_zoom t + t_panY t))"
    using True
    by (simp add: screenToImage_def imageToScreen_def Let_def neg r_def [symmetric])
  show ?thesis
    unfolding a b rotateBy_inverse rotateBy_inverse'
    using assms by (simp add: Let_def)
qed

theorem transform_round_trip_witness:
  "t_zoom (newTransformer 200 100 (2 / 10) 30 (- 40) 5 True) \<noteq> 0
   \<and> screenToImage (newTransformer 200 100 (2 / 10) 30 (- 40) 5 True)
        (fst (imageToScreen (newTransformer 200 100 (2 / 10) 30 (- 40) 5 True) 12 34))
        (snd (imageToScreen (newTransformer 200 100 (2 / 10) 30 (- 40) 5 True) 12 34))
     = (12, 34)
   \<and> imageToScreen (newTransformer 200 100 32 0 0 (- 10) False) 12 34 = (384, 1088)
   \<and> screenToImage (newTransformer 200 100 32 0 0 (- 10) False) 384 1088 = (12, 34)"
proof -
  let ?T = "newTransformer 200 100 (2 / 10) 30 (- 40) 5 True"
  let ?U = "newTransformer 200 100 32 0 0 (- 10) False"
  have z: "t_zoom ?T \<noteq> 0" by (simp add: newTransformer_def)
  have zu: "t_zoom ?U \<noteq> 0" by (simp add: newTransformer_def)
  have c: "imageToScreen ?U 12 34 = (384, 1088)"
    by (simp add: imageToScreen_def newTransformer_def Let_def)
  have d: "screenToImage ?U 384 1088 = (12, 34)"
    using transform_round_trip [OF zu, of 12 34, THEN conjunct1] by (simp add: c)
  from z transform_round_trip [OF z, of 12 34, THEN conjunct1] c d show ?thesis
    by (intro conjI)
qed


section \<open>Where the wheel leaves the image centre\<close>

text \<open>
  Where a wheel event puts the image's centre: at its old screen position plus the old
  pan. \<^verbatim>\<open>newPanX = panX + (screenCenterX - newScreenX)\<close> adds the pan to a position
  that already contains it, so the centre stays in place exactly when the pan was (0, 0).
\<close>

theorem wheel_center_shift:
  assumes "currentFrame (project st) = Some cf"
  shows
    "(let vp = viewport (project st);
          vp' = viewport (project (handleWheel now st deltaY));
          before = imageToScreen (newTransformer (width cf) (height cf) (zoom vp) (panX vp)
                     (panY vp) (rotationDeg cf) True) (width cf / 2) (height cf / 2);
          after = imageToScreen (newTransformer (width cf) (height cf) (zoom vp') (panX vp')
                     (panY vp') (rotationDeg cf) True) (width cf / 2) (height cf / 2)
      in after = (fst before + panX vp, snd before + panY vp))"
  unfolding handleWheel_project [OF assms]
  by (simp add: Let_def imageToScreen_center)

theorem wheel_center_shift_witness:
  "currentFrame (project (exampleApp (exampleProject \<lparr> zoom = 2, panX = 30, panY = - 8 \<rparr> [] [])
       TOOL_SELECT None)) = Some (exampleFrame [])
   \<and> viewport (project (handleWheel 0
        (exampleApp (exampleProject \<lparr> zoom = 2, panX = 30, panY = - 8 \<rparr> [] []) TOOL_SELECT None)
        (- 1)))
     = \<lparr> zoom = 22 / 10, panX = 40, panY = - 26 \<rparr>
   \<and> imageToScreen (newTransformer 200 100 2 30 (- 8) 0 True) (200 / 2) (100 / 2) = (230, 92)
   \<and> imageToScreen (newTransformer 200 100 (22 / 10) 40 (- 26) 0 True) (200 / 2) (100 / 2)
       = (260, 84)"
proof -
  let ?S = "exampleApp (exampleProject \<lparr> zoom = 2, panX = 30, panY = - 8 \<rparr> [] []) TOOL_SELECT None"
  have cf: "currentFrame (project ?S) = Some (exampleFrame [])" by (simp add: exampleApp_def)
  have a: "viewport (project (handleWheel 0 ?S (- 1)))
      = \<lparr> zoom = 22 / 10, panX = 40, panY = - 26 \<rparr>"
    unfolding handleWheel_project [OF cf]
    by (simp add: Let_def ZOOM_MIN_def ZOOM_MAX_def exampleApp_def exampleProject_def
        exampleFrame_def)
  have b: "imageToScreen (newTransformer 200 100 2 30 (- 8) 0 True) (200 / 2) (100 / 2) = (230, 92)"
    by (simp add: imageToScreen_def newTransformer_def Let_def)
  have c: "imageToScreen (newTransformer 200 100 (22 / 10) 40 (- 26) 0 True) (200 / 2) (100 / 2)
       = (260, 84)"
    using wheel_center_shift [OF cf, of 0 "- 1", unfolded Let_def a]
    by (simp add: exampleApp_def exampleProject_def exampleFrame_def b [simplified])
  from cf a b c show ?thesis by (intro conjI)
qed

end
